theory Spec2Isabelle
  imports Complex_Main "HOL-Library.Word"
begin

section \<open>The clip widget of the timeline (pitivi-timelinemedia.c)\<close>

text \<open>
  The widget lives in a C heap of GObjects that point at each other: a clip widget points
  at its linked sibling, at its track (the cell renderer), at its own copy of the source
  descriptor and at the object of the composition engine. The model keeps one typed store
  per kind of object, addressed by natural numbers, and one allocation counter \<open>brk\<close>
  shared by all stores. A nullable C pointer is a \<open>ptr option\<close>, \<open>None\<close> being NULL.
  Every handler takes the store and returns the new one, or the reason it did not return.
\<close>

subsection \<open>Machine types\<close>

type_synonym ptr = nat
type_synonym gint = "32 word"
type_synonym guint = "32 word"
type_synonym gint64 = "64 word"

text \<open>
  What stops a handler: a read or write through a NULL or dangling pointer, a failed
  \<open>g_assert\<close>, \<open>sprintf\<close> writing past the end of the buffer it was given, a call
  of the composition engine on a NULL object, and the conversion of a double whose
  integral part the integer type cannot hold, which C leaves undefined.
\<close>

datatype error = Segfault | AssertionFailed | BufferOverflow | NullObject | UndefinedConversion

definition r_bind :: "error + 'a \<Rightarrow> ('a \<Rightarrow> error + 'b) \<Rightarrow> error + 'b" where
  "r_bind r k = (case r of Inl e \<Rightarrow> Inl e | Inr x \<Rightarrow> k x)"

subsection \<open>Enumerations\<close>

text \<open>
  \<open>PitiviLayerType\<close> and \<open>PitiviCursorType\<close> are declared in headers; the constructors
  below are the values this file names, and one more for every other value of the enum.
\<close>

datatype PitiviLayerType =
    PITIVI_NO_TRACK
  | PITIVI_VIDEO_TRACK
  | PITIVI_AUDIO_TRACK
  | PITIVI_EFFECTS_TRACK
  | PITIVI_TRANSITION_TRACK
  | PITIVI_OTHER_TRACK

datatype PitiviCursorType = PITIVI_CURSOR_SELECT | PITIVI_CURSOR_CUT | PITIVI_CURSOR_OTHER

text \<open>The property ids of the enum \<open>PitiviMediaProperty\<close>, which starts at 1.\<close>

definition PROP_MEDIA_TYPE :: nat where "PROP_MEDIA_TYPE = 1"
definition PROP_SOURCEFILE :: nat where "PROP_SOURCEFILE = 2"
definition PROP_CELL :: nat where "PROP_CELL = 3"

text \<open>A \<open>GValue\<close> as far as the three properties use it: an int or a pointer.\<close>

datatype GValue = GInt PitiviLayerType | GPointer "ptr option"

subsection \<open>Objects\<close>

text \<open>
  \<open>PitiviSourceFile\<close>, the source descriptor. The fields are the ones this file reads:
  two C strings, the length, the pipeline element and the thumbnail pixbuf, which the
  paint routine tests against NULL. Strings and pixbufs are objects of their own, so
  the descriptor holds their addresses.
\<close>

record PitiviSourceFile =
  filename :: ptr
  mediatype :: ptr
  length_sf :: gint64
  pipeline :: ptr
  thumbs_effect :: "ptr option"

text \<open>
  \<open>PitiviSourceItem\<close> is allocated by the constructor and reachable only through its
  widget, so it is a part of the widget's record; \<open>srcfile\<close> is the address of the
  widget's copy of the descriptor, which the split handler hands to the next constructor.
\<close>

record PitiviSourceItem =
  srcfile :: "ptr option"
  id_si :: gint64
  isaudio :: bool
  gnlsource :: "ptr option"

text \<open>
  The private members the handlers below read or write. \<open>g_new0\<close> fills them with zeros:
  NULL pointers, FALSE, and the layer type \<open>PITIVI_NO_TRACK\<close>, taken to be the zero of
  its enum.
\<close>

record PitiviTimelineMediaPrivate =
  cell :: "ptr option"
  sf :: "ptr option"
  menu :: "ptr option"
  media_type :: PitiviLayerType
  dispose_has_run :: bool

text \<open>
  The widget: what \<open>GtkWidget\<close> gives it (the parent, the allocation, the size asked for
  with \<open>gtk_widget_set_size_request\<close>, the flags set by \<open>gtk_widget_show\<close> and
  \<open>gtk_drag_source_set\<close>) and the public and private members of \<open>PitiviTimelineMedia\<close>.
\<close>

record PitiviTimelineMedia =
  parent :: "ptr option"
  allocation_x :: gint
  allocation_width :: gint
  request_width :: gint
  request_height :: gint
  visible :: bool
  drag_source :: bool
  selected :: bool
  linked :: "ptr option"
  sourceitem :: "PitiviSourceItem option"
  private_m :: PitiviTimelineMediaPrivate

text \<open>
  The track: its type, the counter \<open>nb_added[0]\<close>, the track it is linked to and the
  children \<open>gtk_layout_put\<close> gave it, each with its position.
\<close>

record PitiviTimelineCellRenderer =
  track_type :: PitiviLayerType
  nb_added :: gint64
  linked_track :: "ptr option"
  children :: "(ptr \<times> gint \<times> gint) list"

text \<open>
  Modelled from the spec: the object of the composition engine (gnonlin, a library that
  is not part of this repository), "exposing start/stop and media-start/stop offsets and
  a priority/layering value". The setters store what they are given and the getter reads
  it back.
\<close>

record GnlObject =
  gnl_name :: string
  gnl_element :: ptr
  gnl_start :: gint64
  gnl_stop :: gint64
  gnl_media_start :: gint64
  gnl_media_stop :: gint64
  gnl_priority :: gint

text \<open>What the handlers ask of the toolkit, in the order they ask it.\<close>

datatype event =
    Expose ptr
  | Emit_deselect
  | Emit_source_cut ptr real ptr
  | Grab_focus ptr
  | Menu_popup ptr ptr nat
  | Destroy ptr

record world =
  medias :: "ptr \<rightharpoonup> PitiviTimelineMedia"
  cells :: "ptr \<rightharpoonup> PitiviTimelineCellRenderer"
  srcfiles :: "ptr \<rightharpoonup> PitiviSourceFile"
  strings :: "ptr \<rightharpoonup> string"
  pixbufs :: "ptr \<rightharpoonup> nat list"
  gnls :: "ptr \<rightharpoonup> GnlObject"
  cursor :: PitiviCursorType
  brk :: ptr
  trace :: "event list"

subsection \<open>The composition engine\<close>

definition gnl_object_set_start_stop :: "ptr option \<Rightarrow> gint64 \<Rightarrow> gint64 \<Rightarrow> world \<Rightarrow> error + world" where
  "gnl_object_set_start_stop g start stop s =
     (case g of None \<Rightarrow> Inl NullObject | Some a \<Rightarrow>
        (case gnls s a of None \<Rightarrow> Inl Segfault | Some obj \<Rightarrow>
           Inr (s\<lparr>gnls := (gnls s)(a \<mapsto> obj\<lparr>gnl_start := start, gnl_stop := stop\<rparr>)\<rparr>)))"

definition gnl_object_set_media_start_stop :: "ptr option \<Rightarrow> gint64 \<Rightarrow> gint64 \<Rightarrow> world \<Rightarrow> error + world" where
  "gnl_object_set_media_start_stop g start stop s =
     (case g of None \<Rightarrow> Inl NullObject | Some a \<Rightarrow>
        (case gnls s a of None \<Rightarrow> Inl Segfault | Some obj \<Rightarrow>
           Inr (s\<lparr>gnls := (gnls s)(a \<mapsto> obj\<lparr>gnl_media_start := start, gnl_media_stop := stop\<rparr>)\<rparr>)))"

definition gnl_object_get_media_start_stop :: "ptr option \<Rightarrow> world \<Rightarrow> error + (gint64 \<times> gint64)" where
  "gnl_object_get_media_start_stop g s =
     (case g of None \<Rightarrow> Inl NullObject | Some a \<Rightarrow>
        (case gnls s a of None \<Rightarrow> Inl Segfault | Some obj \<Rightarrow>
           Inr (gnl_media_start obj, gnl_media_stop obj)))"

definition gnl_object_set_priority :: "ptr option \<Rightarrow> gint \<Rightarrow> world \<Rightarrow> error + world" where
  "gnl_object_set_priority g p s =
     (case g of None \<Rightarrow> Inl NullObject | Some a \<Rightarrow>
        (case gnls s a of None \<Rightarrow> Inl Segfault | Some obj \<Rightarrow>
           Inr (s\<lparr>gnls := (gnls s)(a \<mapsto> obj\<lparr>gnl_priority := p\<rparr>)\<rparr>)))"

text \<open>
  Modelled from the spec: \<open>gnl_source_new\<close>, which creates the engine's object for a name
  and a pipeline element. The intervals and the priority start at zero.
\<close>

definition gnl_source_new :: "string \<Rightarrow> ptr \<Rightarrow> world \<Rightarrow> ptr \<times> world" where
  "gnl_source_new name el s =
     (brk s,
      s\<lparr>gnls := (gnls s)(brk s \<mapsto>
           \<lparr>gnl_name = name, gnl_element = el, gnl_start = 0, gnl_stop = 0,
            gnl_media_start = 0, gnl_media_stop = 0, gnl_priority = 0\<rparr>),
        brk := Suc (brk s)\<rparr>)"

subsection \<open>The passthrough operations\<close>

text \<open>\<open>media->sourceitem->gnlsource\<close>: two reads through pointers.\<close>

definition media_gnlsource :: "ptr \<Rightarrow> world \<Rightarrow> error + ptr option" where
  "media_gnlsource media s =
     (case medias s media of None \<Rightarrow> Inl Segfault | Some m \<Rightarrow>
        (case sourceitem m of None \<Rightarrow> Inl Segfault | Some si \<Rightarrow> Inr (gnlsource si)))"

definition pitivi_timelinemedia_set_start_stop :: "ptr \<Rightarrow> gint64 \<Rightarrow> gint64 \<Rightarrow> world \<Rightarrow> error + world" where
  "pitivi_timelinemedia_set_start_stop media start stop s =
     r_bind (media_gnlsource media s) (\<lambda>g. gnl_object_set_start_stop g start stop s)"

definition pitivi_timelinemedia_put :: "ptr \<Rightarrow> gint64 \<Rightarrow> world \<Rightarrow> error + world" where
  "pitivi_timelinemedia_put media start s =
     r_bind (media_gnlsource media s) (\<lambda>g.
     r_bind (gnl_object_get_media_start_stop g s) (\<lambda>(mstart, mstop).
       gnl_object_set_start_stop g start (start + mstop - mstart) s))"

definition pitivi_timelinemedia_set_media_start_stop :: "ptr \<Rightarrow> gint64 \<Rightarrow> gint64 \<Rightarrow> world \<Rightarrow> error + world" where
  "pitivi_timelinemedia_set_media_start_stop media start stop s =
     r_bind (media_gnlsource media s) (\<lambda>g. gnl_object_set_media_start_stop g start stop s)"

definition pitivi_timelinemedia_set_priority :: "ptr \<Rightarrow> gint \<Rightarrow> world \<Rightarrow> error + world" where
  "pitivi_timelinemedia_set_priority media p s =
     r_bind (media_gnlsource media s) (\<lambda>g. gnl_object_set_priority g p s)"

subsection \<open>Properties\<close>

definition set_private :: "ptr \<Rightarrow> (PitiviTimelineMediaPrivate \<Rightarrow> PitiviTimelineMediaPrivate) \<Rightarrow> world \<Rightarrow> error + world" where
  "set_private self f s =
     (case medias s self of None \<Rightarrow> Inl Segfault | Some m \<Rightarrow>
        Inr (s\<lparr>medias := (medias s)(self \<mapsto> m\<lparr>private_m := f (private_m m)\<rparr>)\<rparr>))"

text \<open>
  \<open>g_value_get_int\<close> and \<open>g_value_get_pointer\<close> on a value of the other kind warn and
  return 0 and NULL.
\<close>

definition g_value_get_int :: "GValue \<Rightarrow> PitiviLayerType" where
  "g_value_get_int v = (case v of GInt t \<Rightarrow> t | GPointer _ \<Rightarrow> PITIVI_NO_TRACK)"

definition g_value_get_pointer :: "GValue \<Rightarrow> ptr option" where
  "g_value_get_pointer v = (case v of GPointer p \<Rightarrow> p | GInt _ \<Rightarrow> None)"

definition pitivi_timelinemedia_set_property :: "ptr \<Rightarrow> nat \<Rightarrow> GValue \<Rightarrow> world \<Rightarrow> error + world" where
  "pitivi_timelinemedia_set_property object property_id v s =
     (if property_id = PROP_MEDIA_TYPE then
        set_private object (\<lambda>p. p\<lparr>media_type := g_value_get_int v\<rparr>) s
      else if property_id = PROP_SOURCEFILE then
        set_private object (\<lambda>p. p\<lparr>sf := g_value_get_pointer v\<rparr>) s
      else if property_id = PROP_CELL then
        set_private object (\<lambda>p. p\<lparr>cell := g_value_get_pointer v\<rparr>) s
      else Inl AssertionFailed)"

text \<open>
  The switch of \<open>pitivi_timelinemedia_get_property\<close> has the default case only, which
  asserts FALSE: the value is never written.
\<close>

definition pitivi_timelinemedia_get_property :: "ptr \<Rightarrow> nat \<Rightarrow> world \<Rightarrow> error + (GValue \<times> world)" where
  "pitivi_timelinemedia_get_property object property_id s = Inl AssertionFailed"

text \<open>
  The properties \<open>class_init\<close> installs, each with its id and whether its flags hold
  \<open>G_PARAM_READABLE\<close> (all three are \<open>G_PARAM_READWRITE\<close>).
\<close>

definition installed_properties :: "(string \<times> nat \<times> bool) list" where
  "installed_properties =
     [(''media_type'', PROP_MEDIA_TYPE, True),
      (''source_file'', PROP_SOURCEFILE, True),
      (''cell'', PROP_CELL, True)]"

subsection \<open>The toolkit\<close>

text \<open>
  The calls into GTK, as far as the handlers depend on them. \<open>request_width\<close> and
  \<open>request_height\<close> of a widget are the arguments of the last
  \<open>gtk_widget_set_size_request\<close> on it; the \<open>children\<close> of a track are the widgets
  \<open>gtk_layout_put\<close> placed there and not yet destroyed, with the position given.
\<close>

definition update_media :: "ptr \<Rightarrow> (PitiviTimelineMedia \<Rightarrow> PitiviTimelineMedia) \<Rightarrow> world \<Rightarrow> error + world" where
  "update_media w f s =
     (case medias s w of None \<Rightarrow> Inl Segfault | Some m \<Rightarrow>
        Inr (s\<lparr>medias := (medias s)(w \<mapsto> f m)\<rparr>))"

definition media_linked :: "ptr \<Rightarrow> world \<Rightarrow> error + ptr option" where
  "media_linked w s = (case medias s w of None \<Rightarrow> Inl Segfault | Some m \<Rightarrow> Inr (linked m))"

definition pitivi_send_expose_event :: "ptr \<Rightarrow> world \<Rightarrow> world" where
  "pitivi_send_expose_event w s = s\<lparr>trace := trace s @ [Expose w]\<rparr>"

definition gtk_widget_grab_focus :: "ptr \<Rightarrow> world \<Rightarrow> world" where
  "gtk_widget_grab_focus w s = s\<lparr>trace := trace s @ [Grab_focus w]\<rparr>"

definition gtk_widget_set_size_request :: "ptr \<Rightarrow> gint \<Rightarrow> gint \<Rightarrow> world \<Rightarrow> error + world" where
  "gtk_widget_set_size_request w width height s =
     update_media w (\<lambda>m. m\<lparr>request_width := width, request_height := height\<rparr>) s"

definition gtk_widget_show :: "ptr \<Rightarrow> world \<Rightarrow> error + world" where
  "gtk_widget_show w s = update_media w (\<lambda>m. m\<lparr>visible := True\<rparr>) s"

text \<open>
  \<open>gtk_layout_put\<close> on a NULL layout fails its \<open>g_return_if_fail\<close> and does nothing.
\<close>

definition gtk_layout_put :: "ptr option \<Rightarrow> ptr \<Rightarrow> gint \<Rightarrow> gint \<Rightarrow> world \<Rightarrow> error + world" where
  "gtk_layout_put layout child x y s =
     (case layout of None \<Rightarrow> Inr s | Some c \<Rightarrow>
        (case cells s c of None \<Rightarrow> Inl Segfault | Some cr \<Rightarrow>
           update_media child (\<lambda>m. m\<lparr>parent := Some c\<rparr>)
             (s\<lparr>cells := (cells s)(c \<mapsto> cr\<lparr>children := children cr @ [(child, x, y)]\<rparr>)\<rparr>)))"

text \<open>
  \<open>gtk_widget_destroy\<close> takes the widget out of its parent and frees it; what the
  class's \<open>dispose\<close> and \<open>finalize\<close> do on the way is gone with the widget.
\<close>

definition gtk_widget_destroy :: "ptr \<Rightarrow> world \<Rightarrow> error + world" where
  "gtk_widget_destroy w s =
     (case medias s w of None \<Rightarrow> Inl Segfault | Some m \<Rightarrow>
        Inr (s\<lparr>medias := (medias s)(w := None),
              cells :=
                (case parent m of None \<Rightarrow> cells s | Some c \<Rightarrow>
                   (case cells s c of None \<Rightarrow> cells s | Some cr \<Rightarrow>
                      (cells s)(c \<mapsto> cr\<lparr>children := filter (\<lambda>k. fst k \<noteq> w) (children cr)\<rparr>))),
              trace := trace s @ [Destroy w]\<rparr>))"

text \<open>\<open>create_menupopup\<close> and \<open>gtk_menu_popup\<close>: a new menu, shown for the button.\<close>

definition create_menupopup :: "ptr \<Rightarrow> world \<Rightarrow> ptr \<times> world" where
  "create_menupopup w s = (brk s, s\<lparr>brk := Suc (brk s)\<rparr>)"

definition gtk_menu_popup :: "ptr \<Rightarrow> ptr \<Rightarrow> nat \<Rightarrow> world \<Rightarrow> world" where
  "gtk_menu_popup w m button s = s\<lparr>trace := trace s @ [Menu_popup w m button]\<rparr>"

subsection \<open>Double arithmetic and conversions\<close>

text \<open>
  The pointer's \<open>x\<close> in a \<open>GdkEventButton\<close> is a \<open>gdouble\<close>: a finite binary64 value,
  modelled by the real number it denotes. Every sum and difference of doubles is rounded
  to binary64: to the nearest value with a significand of 53 bits, a tie going to the
  even significand. (The sums of the handler stay far from the largest double, and from
  the subnormal range unless they are exact.)
\<close>

definition round_even :: "real \<Rightarrow> int" where
  "round_even y =
     (let f = \<lfloor>y\<rfloor>; r = y - of_int f
      in if r < 1 / 2 then f else if 1 / 2 < r then f + 1 else if even f then f else f + 1)"

definition binary64 :: "real \<Rightarrow> real" where
  "binary64 x =
     (if x = 0 then 0
      else (let e = \<lfloor>log 2 \<bar>x\<bar>\<rfloor>; u = 2 powr (of_int (e - 52))
            in of_int (round_even (x / u)) * u))"

text \<open>
  C converts a double to an integer by dropping the fraction; when the integral part is
  not a value of the integer type the behaviour is undefined. An \<open>int\<close> converts to double
  exactly.
\<close>

definition c_trunc :: "real \<Rightarrow> int" where
  "c_trunc x = (if 0 \<le> x then \<lfloor>x\<rfloor> else \<lceil>x\<rceil>)"

definition double_to_guint :: "real \<Rightarrow> error + guint" where
  "double_to_guint x =
     (if 0 \<le> c_trunc x \<and> c_trunc x < 2 ^ 32 then Inr (word_of_int (c_trunc x))
      else Inl UndefinedConversion)"

definition double_to_gint :: "real \<Rightarrow> error + gint" where
  "double_to_gint x =
     (if - (2 ^ 31) \<le> c_trunc x \<and> c_trunc x < 2 ^ 31 then Inr (word_of_int (c_trunc x))
      else Inl UndefinedConversion)"

definition double_of_gint :: "gint \<Rightarrow> real" where
  "double_of_gint i = real_of_int (sint i)"

text \<open>
  The three values the release handler computes from the pointer's \<open>x\<close>:
  \<open>pos = widget->allocation.x + event->x + 2\<close> and
  \<open>width = widget->allocation.width - (event->x + 2)\<close>, both assigned to a \<open>guint\<close>, and
  \<open>event->x + 2\<close> passed for the \<open>gint\<close> width of \<open>gtk_widget_set_size_request\<close>.
\<close>

definition cut_pos :: "gint \<Rightarrow> real \<Rightarrow> error + guint" where
  "cut_pos ax event_x =
     double_to_guint (binary64 (binary64 (double_of_gint ax + event_x) + 2))"

definition cut_width :: "gint \<Rightarrow> real \<Rightarrow> error + guint" where
  "cut_width aw event_x =
     double_to_guint (binary64 (double_of_gint aw - binary64 (event_x + 2)))"

definition cut_own_width :: "real \<Rightarrow> error + gint" where
  "cut_own_width event_x = double_to_gint (binary64 (event_x + 2))"

subsection \<open>Printing the name of the engine's object\<close>

fun dec_nat :: "nat \<Rightarrow> string" where
  "dec_nat n =
     (if n < 10 then [''0123456789'' ! n]
      else dec_nat (n div 10) @ [''0123456789'' ! (n mod 10)])"

declare dec_nat.simps [simp del]

definition dec_int :: "int \<Rightarrow> string" where
  "dec_int i = (if i < 0 then CHR ''-'' # dec_nat (nat (- i)) else dec_nat (nat i))"

text \<open>
  \<open>name = g_malloc (strlen (filename) + strlen (mediatype) + 10)\<close> and
  \<open>sprintf (name, "%s_%s_%lld", filename, mediatype, id)\<close>: the text and its final NUL
  have to fit the buffer.
\<close>

definition sprintf_name :: "string \<Rightarrow> string \<Rightarrow> gint64 \<Rightarrow> error + string" where
  "sprintf_name f m i =
     (let size = length f + length m + 10;
          name = f @ ''_'' @ m @ ''_'' @ dec_int (sint i)
      in if size < length name + 1 then Inl BufferOverflow else Inr name)"

subsection \<open>Construction\<close>

text \<open>
  \<open>g_object_new\<close> runs the class's constructor with the construct properties
  (\<open>source_file\<close> and \<open>cell\<close>) and sets the other properties (\<open>media_type\<close>) on the object
  it returns. The constructor first chains up: the parent's constructor allocates the
  instance, runs \<open>instance_init\<close> on it and sets the construct properties. The members
  of \<open>PitiviTimelineMedia\<close> start as zeros; \<open>GtkWidget\<close> starts with the allocation
  \<open>(-1, -1, 1, 1)\<close>, no parent and no size asked for, which reads as \<open>-1\<close>.
\<close>

definition g_type_create_instance :: "world \<Rightarrow> ptr \<times> world" where
  "g_type_create_instance s =
     (brk s,
      s\<lparr>medias := (medias s)(brk s \<mapsto>
           \<lparr>parent = None, allocation_x = - 1, allocation_width = 1,
            request_width = - 1, request_height = - 1,
            visible = False, drag_source = False, selected = False, linked = None,
            sourceitem = None,
            private_m = \<lparr>cell = None, sf = None, menu = None,
                         media_type = PITIVI_NO_TRACK, dispose_has_run = False\<rparr>\<rparr>),
        brk := Suc (brk s)\<rparr>)"

definition pitivi_timelinemedia_instance_init :: "ptr \<Rightarrow> world \<Rightarrow> error + world" where
  "pitivi_timelinemedia_instance_init self s =
     update_media self
       (\<lambda>m. m\<lparr>private_m := \<lparr>cell = None, sf = None, menu = None,
                              media_type = PITIVI_NO_TRACK, dispose_has_run = False\<rparr>,
               selected := False, drag_source := True, visible := True\<rparr>) s"

fun set_properties :: "ptr \<Rightarrow> (nat \<times> GValue) list \<Rightarrow> world \<Rightarrow> error + world" where
  "set_properties object [] s = Inr s"
| "set_properties object ((property_id, v) # ps) s =
     r_bind (pitivi_timelinemedia_set_property object property_id v s) (set_properties object ps)"

definition parent_constructor :: "(nat \<times> GValue) list \<Rightarrow> world \<Rightarrow> error + (ptr \<times> world)" where
  "parent_constructor construct_properties s =
     (let (object, s1) = g_type_create_instance s in
      r_bind (pitivi_timelinemedia_instance_init object s1) (\<lambda>s2.
      r_bind (set_properties object construct_properties s2) (\<lambda>s3.
        Inr (object, s3))))"

definition pitivi_timelinemedia_constructor :: "(nat \<times> GValue) list \<Rightarrow> world \<Rightarrow> error + (ptr \<times> world)" where
  "pitivi_timelinemedia_constructor construct_properties s =
     r_bind (parent_constructor construct_properties s) (\<lambda>(self, s1).
       (case medias s1 self of None \<Rightarrow> Inl Segfault | Some m \<Rightarrow>
        (case sf (private_m m) of None \<Rightarrow> Inl Segfault | Some p \<Rightarrow>
        (case srcfiles s1 p of None \<Rightarrow> Inl Segfault | Some d \<Rightarrow>
        (case cell (private_m m) of None \<Rightarrow> Inl Segfault | Some c \<Rightarrow>
        (case cells s1 c of None \<Rightarrow> Inl Segfault | Some cr \<Rightarrow>
          (let a = brk s1;
               s2 = s1\<lparr>srcfiles := (srcfiles s1)(a \<mapsto> d), brk := Suc a\<rparr>;
               si = \<lparr>srcfile = Some a, id_si = nb_added cr,
                     isaudio = (track_type cr = PITIVI_AUDIO_TRACK), gnlsource = None\<rparr>
           in if track_type cr \<noteq> PITIVI_TRANSITION_TRACK then
                (case strings s2 (filename d) of None \<Rightarrow> Inl Segfault | Some f \<Rightarrow>
                (case strings s2 (mediatype d) of None \<Rightarrow> Inl Segfault | Some mt \<Rightarrow>
                   r_bind (sprintf_name f mt (id_si si)) (\<lambda>name.
                     (let (g, s3) = gnl_source_new name (pipeline d) s2 in
                      r_bind (gnl_object_set_media_start_stop (Some g) 0 (length_sf d) s3) (\<lambda>s4.
                      r_bind (update_media self (\<lambda>x. x\<lparr>sourceitem := Some (si\<lparr>gnlsource := Some g\<rparr>)\<rparr>) s4) (\<lambda>s5.
                        Inr (self, s5)))))))
              else
                r_bind (update_media self (\<lambda>x. x\<lparr>sourceitem := Some si\<rparr>) s2) (\<lambda>s3.
                  Inr (self, s3)))))))))"

definition g_object_new :: "(nat \<times> GValue) list \<Rightarrow> (nat \<times> GValue) list \<Rightarrow> world \<Rightarrow> error + (ptr \<times> world)" where
  "g_object_new construct_properties properties s =
     r_bind (pitivi_timelinemedia_constructor construct_properties s) (\<lambda>(object, s1).
     r_bind (set_properties object properties s1) (\<lambda>s2.
       Inr (object, s2)))"

text \<open>
  \<open>check_media_type\<close> is defined in another file: it is a parameter, a function of the
  descriptor's address that reads the store.
\<close>

definition pitivi_timelinemedia_new ::
  "(ptr \<Rightarrow> world \<Rightarrow> PitiviLayerType) \<Rightarrow> ptr option \<Rightarrow> ptr option \<Rightarrow> world \<Rightarrow> error + (ptr \<times> world)" where
  "pitivi_timelinemedia_new check_media_type sfp cellp s =
     (let type = (case sfp of None \<Rightarrow> PITIVI_NO_TRACK | Some p \<Rightarrow> check_media_type p s) in
      r_bind (g_object_new [(PROP_SOURCEFILE, GPointer sfp), (PROP_CELL, GPointer cellp)]
                [(PROP_MEDIA_TYPE, GInt type)] s) (\<lambda>(timelinemedia, s1).
        (case cellp of None \<Rightarrow> Inl Segfault | Some c \<Rightarrow>
         (case cells s1 c of None \<Rightarrow> Inl Segfault | Some cr \<Rightarrow>
            Inr (timelinemedia, s1\<lparr>cells := (cells s1)(c \<mapsto> cr\<lparr>nb_added := nb_added cr + 1\<rparr>)\<rparr>)))))"

subsection \<open>Selection, dissociation and deletion\<close>

definition pitivi_timelinemedia_callb_deselect :: "ptr \<Rightarrow> world \<Rightarrow> error + world" where
  "pitivi_timelinemedia_callb_deselect self s =
     r_bind (update_media self (\<lambda>m. m\<lparr>selected := False\<rparr>) s) (\<lambda>s1.
       Inr (pitivi_send_expose_event self s1))"

text \<open>
  Modelled from the spec: the top-level window's handler of "deselect", which is not in
  this file: "used when another clip becomes selected and this one must yield
  exclusivity". The window forwards the signal to the clip widgets it reaches, whose class
  handler is \<open>pitivi_timelinemedia_callb_deselect\<close>; which widgets these are is a
  parameter of the press handler.
\<close>

fun deselect_all :: "ptr list \<Rightarrow> world \<Rightarrow> error + world" where
  "deselect_all [] s = Inr s"
| "deselect_all (w # ws) s = r_bind (pitivi_timelinemedia_callb_deselect w s) (deselect_all ws)"

definition emit_deselect :: "ptr list \<Rightarrow> world \<Rightarrow> error + world" where
  "emit_deselect reach s = deselect_all reach (s\<lparr>trace := trace s @ [Emit_deselect]\<rparr>)"

definition pitivi_timelinemedia_button_press_event ::
  "ptr list \<Rightarrow> ptr \<Rightarrow> nat \<Rightarrow> world \<Rightarrow> error + (bool \<times> world)" where
  "pitivi_timelinemedia_button_press_event reach widget button s =
     (case medias s widget of None \<Rightarrow> Inl Segfault | Some self \<Rightarrow>
        r_bind
          (if cursor s = PITIVI_CURSOR_SELECT then
             (if button = 1 then
                r_bind
                  (if \<not> selected self then
                     r_bind (emit_deselect reach s) (\<lambda>s1.
                     r_bind (update_media widget (\<lambda>m. m\<lparr>selected := True\<rparr>) s1) (\<lambda>s2.
                     r_bind (media_linked widget s2) (\<lambda>l.
                       (case l of None \<Rightarrow> Inr s2
                        | Some b \<Rightarrow> update_media b (\<lambda>m. m\<lparr>selected := True\<rparr>) s2))))
                   else
                     r_bind (update_media widget (\<lambda>m. m\<lparr>selected := False\<rparr>) s) (\<lambda>s2.
                     r_bind (media_linked widget s2) (\<lambda>l.
                       (case l of None \<Rightarrow> Inr s2
                        | Some b \<Rightarrow> update_media b (\<lambda>m. m\<lparr>selected := False\<rparr>) s2))))
                  (\<lambda>s3.
                     (let s4 = pitivi_send_expose_event widget (gtk_widget_grab_focus widget s3) in
                      r_bind (media_linked widget s4) (\<lambda>l.
                        (case l of None \<Rightarrow> Inr s4
                         | Some b \<Rightarrow> Inr (pitivi_send_expose_event b s4)))))
              else
                (let (m, s1) = create_menupopup widget s in
                 r_bind (update_media widget (\<lambda>x. x\<lparr>private_m := (private_m x)\<lparr>menu := Some m\<rparr>\<rparr>) s1) (\<lambda>s2.
                   Inr (gtk_menu_popup widget m button s2))))
           else Inr s)
          (\<lambda>s'. Inr (True, s')))"

definition pitivi_timelinemedia_callb_dissociate :: "ptr \<Rightarrow> world \<Rightarrow> error + world" where
  "pitivi_timelinemedia_callb_dissociate self s =
     (case medias s self of None \<Rightarrow> Inr s | Some m \<Rightarrow>
        (case linked m of None \<Rightarrow> Inr s | Some l \<Rightarrow>
           (if selected m then
              r_bind (update_media l (\<lambda>x. x\<lparr>selected := False\<rparr>) s) (\<lambda>s1.
              r_bind (update_media l (\<lambda>x. x\<lparr>linked := None\<rparr>) (pitivi_send_expose_event l s1)) (\<lambda>s2.
                update_media self (\<lambda>x. x\<lparr>linked := None\<rparr>) s2))
            else Inr s)))"

definition pitivi_timelinemedia_callb_destroy :: "ptr \<Rightarrow> world \<Rightarrow> error + world" where
  "pitivi_timelinemedia_callb_destroy self s =
     (case medias s self of None \<Rightarrow> Inl Segfault | Some m \<Rightarrow>
        (if selected m then
           r_bind (case linked m of None \<Rightarrow> Inr s | Some l \<Rightarrow> gtk_widget_destroy l s) (\<lambda>s1.
             gtk_widget_destroy self s1)
         else Inr s))"

definition pitivi_timelinemedia_callb_key_release_event :: "ptr \<Rightarrow> nat \<Rightarrow> world \<Rightarrow> error + (bool \<times> world)" where
  "pitivi_timelinemedia_callb_key_release_event widget keyval s =
     r_bind (pitivi_timelinemedia_callb_destroy widget s) (\<lambda>s'. Inr (True, s'))"

subsection \<open>The split\<close>

text \<open>
  \<open>FIXED_HEIGHT\<close> is a macro of a header and a parameter here. \<open>pos\<close> and \<open>width\<close> are
  \<open>guint\<close>; the layout and the size request take them as \<open>gint\<close>, the same 32 bits.
\<close>

definition media_srcfile :: "ptr \<Rightarrow> world \<Rightarrow> error + ptr option" where
  "media_srcfile w s =
     (case medias s w of None \<Rightarrow> Inl Segfault | Some m \<Rightarrow>
        (case sourceitem m of None \<Rightarrow> Inl Segfault | Some si \<Rightarrow> Inr (srcfile si)))"

definition bump_nb_added :: "ptr \<Rightarrow> world \<Rightarrow> error + world" where
  "bump_nb_added c s =
     (case cells s c of None \<Rightarrow> Inl Segfault | Some cr \<Rightarrow>
        Inr (s\<lparr>cells := (cells s)(c \<mapsto> cr\<lparr>nb_added := nb_added cr + 1\<rparr>)\<rparr>))"

text \<open>
  The block under \<open>if (self->linked)\<close> of the release handler: the second new clip, made
  from the sibling's descriptor and the same container, put on the container's linked
  track; \<open>b\<close> is \<open>self->linked\<close> and \<open>c\<close> the container.
\<close>

definition cut_linked_half ::
  "(ptr \<Rightarrow> world \<Rightarrow> PitiviLayerType) \<Rightarrow> gint \<Rightarrow> ptr \<Rightarrow> ptr \<Rightarrow> guint \<Rightarrow> guint \<Rightarrow> real \<Rightarrow> ptr \<Rightarrow> world \<Rightarrow> error + world" where
  "cut_linked_half check_media_type FIXED_HEIGHT c media0 pos width event_x b s =
     r_bind (media_srcfile b s) (\<lambda>sf1.
     r_bind (pitivi_timelinemedia_new check_media_type sf1 (Some c) s) (\<lambda>(media1, t1).
     (case cells t1 c of None \<Rightarrow> Inl Segfault | Some cr \<Rightarrow>
     r_bind (gtk_layout_put (linked_track cr) media1 pos 0 t1) (\<lambda>t2.
     r_bind (gtk_widget_set_size_request media1 width FIXED_HEIGHT t2) (\<lambda>t3.
     r_bind (gtk_widget_show media1 t3) (\<lambda>t4.
     r_bind (cut_own_width event_x) (\<lambda>own.
     r_bind (gtk_widget_set_size_request b own FIXED_HEIGHT t4) (\<lambda>t5.
     r_bind (update_media media1 (\<lambda>x. x\<lparr>linked := Some media0\<rparr>) t5) (\<lambda>t6.
     r_bind (update_media media0 (\<lambda>x. x\<lparr>linked := Some media1\<rparr>) t6) (\<lambda>t7.
       bump_nb_added c t7))))))))))"

definition pitivi_timelinemedia_button_release_event ::
  "(ptr \<Rightarrow> world \<Rightarrow> PitiviLayerType) \<Rightarrow> gint \<Rightarrow> ptr \<Rightarrow> real \<Rightarrow> world \<Rightarrow> error + (bool \<times> world)" where
  "pitivi_timelinemedia_button_release_event check_media_type FIXED_HEIGHT widget event_x s =
     (case medias s widget of None \<Rightarrow> Inl Segfault | Some self \<Rightarrow>
        r_bind
          (if cursor s = PITIVI_CURSOR_CUT then
             (let container = parent self in
              r_bind (cut_pos (allocation_x self) event_x) (\<lambda>pos.
              r_bind (cut_width (allocation_width self) event_x) (\<lambda>width.
              r_bind (media_srcfile widget s) (\<lambda>sf0.
              r_bind (pitivi_timelinemedia_new check_media_type sf0 container s) (\<lambda>(media0, s1).
              r_bind (gtk_layout_put container media0 pos 0 s1) (\<lambda>s2.
              r_bind (gtk_widget_set_size_request media0 width FIXED_HEIGHT s2) (\<lambda>s3.
              r_bind (gtk_widget_show media0 s3) (\<lambda>s4.
              r_bind (cut_own_width event_x) (\<lambda>own.
              r_bind (gtk_widget_set_size_request widget own FIXED_HEIGHT s4) (\<lambda>s5.
              (case container of None \<Rightarrow> Inl Segfault | Some c \<Rightarrow>
              r_bind (bump_nb_added c s5) (\<lambda>s6.
              r_bind (media_linked widget s6) (\<lambda>l.
              r_bind
                (case l of None \<Rightarrow> Inr s6
                 | Some b \<Rightarrow> cut_linked_half check_media_type FIXED_HEIGHT c media0 pos width event_x b s6)
                (\<lambda>s7. Inr (s7\<lparr>trace := trace s7 @ [Emit_source_cut c event_x widget]\<rparr>)))))))))))))))
           else Inr s)
          (\<lambda>s'. Inr (True, s')))"

subsection \<open>A store to run the handlers on\<close>

text \<open>
  Two linked clips, both selected: the video half (3) on the video track (1) and the audio
  half (4) on the audio track (2), made from the descriptor at 20.
\<close>

definition demo_world :: world where
  "demo_world =
     \<lparr>medias = [
        3 \<mapsto> \<lparr>parent = Some 1, allocation_x = 50, allocation_width = 100,
               request_width = 100, request_height = 50,
               visible = True, drag_source = True, selected = True, linked = Some 4,
               sourceitem = Some \<lparr>srcfile = Some 21, id_si = 0, isaudio = False, gnlsource = Some 5\<rparr>,
               private_m = \<lparr>cell = Some 1, sf = Some 20, menu = None,
                            media_type = PITIVI_VIDEO_TRACK, dispose_has_run = False\<rparr>\<rparr>,
        4 \<mapsto> \<lparr>parent = Some 2, allocation_x = 50, allocation_width = 100,
               request_width = 100, request_height = 50,
               visible = True, drag_source = True, selected = True, linked = Some 3,
               sourceitem = Some \<lparr>srcfile = Some 22, id_si = 1, isaudio = True, gnlsource = Some 6\<rparr>,
               private_m = \<lparr>cell = Some 2, sf = Some 20, menu = None,
                            media_type = PITIVI_AUDIO_TRACK, dispose_has_run = False\<rparr>\<rparr>],
      cells = [
        1 \<mapsto> \<lparr>track_type = PITIVI_VIDEO_TRACK, nb_added = 2, linked_track = Some 2,
               children = [(3, 50, 0)]\<rparr>,
        2 \<mapsto> \<lparr>track_type = PITIVI_AUDIO_TRACK, nb_added = 2, linked_track = Some 1,
               children = [(4, 50, 0)]\<rparr>],
      srcfiles = [
        20 \<mapsto> \<lparr>filename = 10, mediatype = 11, length_sf = 5000, pipeline = 30, thumbs_effect = Some 40\<rparr>,
        21 \<mapsto> \<lparr>filename = 10, mediatype = 11, length_sf = 5000, pipeline = 30, thumbs_effect = Some 40\<rparr>,
        22 \<mapsto> \<lparr>filename = 10, mediatype = 11, length_sf = 5000, pipeline = 30, thumbs_effect = Some 40\<rparr>],
      strings = [10 \<mapsto> ''clip.avi'', 11 \<mapsto> ''video/audio''],
      pixbufs = [40 \<mapsto> [1, 2, 3]],
      gnls = [
        5 \<mapsto> \<lparr>gnl_name = ''clip.avi_video/audio_0'', gnl_element = 30, gnl_start = 50, gnl_stop = 150,
               gnl_media_start = 0, gnl_media_stop = 5000, gnl_priority = 0\<rparr>,
        6 \<mapsto> \<lparr>gnl_name = ''clip.avi_video/audio_1'', gnl_element = 30, gnl_start = 50, gnl_stop = 150,
               gnl_media_start = 0, gnl_media_stop = 5000, gnl_priority = 0\<rparr>],
      cursor = PITIVI_CURSOR_SELECT,
      brk = 100,
      trace = []\<rparr>"

text \<open>
  Two stand-ins for \<open>check_media_type\<close>: one takes every descriptor for video, the other
  for a transition.
\<close>

definition always_video :: "ptr \<Rightarrow> world \<Rightarrow> PitiviLayerType" where [simp]:
  "always_video p s = PITIVI_VIDEO_TRACK"

definition always_transition :: "ptr \<Rightarrow> world \<Rightarrow> PitiviLayerType" where [simp]:
  "always_transition p s = PITIVI_TRANSITION_TRACK"

subsection \<open>Observations\<close>

text \<open>The selected flag of a widget in the store a handler returned.\<close>

definition sel_after :: "error + world \<Rightarrow> ptr \<Rightarrow> bool option" where
  "sel_after r w = (case r of Inl e \<Rightarrow> None | Inr s \<Rightarrow> map_option selected (medias s w))"

text \<open>
  The widget as \<open>pitivi_timelinemedia_new\<close> returns it, given the descriptor's address,
  the track, the layer type and the source item.
\<close>

definition constructed_media :: "ptr \<Rightarrow> ptr \<Rightarrow> PitiviLayerType \<Rightarrow> PitiviSourceItem \<Rightarrow> PitiviTimelineMedia" where
  "constructed_media p c t si =
     \<lparr>parent = None, allocation_x = - 1, allocation_width = 1,
      request_width = - 1, request_height = - 1,
      visible = True, drag_source = True, selected = False, linked = None,
      sourceitem = Some si,
      private_m = \<lparr>cell = Some c, sf = Some p, menu = None,
                   media_type = t, dispose_has_run = False\<rparr>\<rparr>"

text \<open>
  What a constructor's result shows: the source item of a widget, the layer type of the
  new widget, and the engine's object behind it, if it has one.
\<close>

definition media_sourceitem :: "ptr \<Rightarrow> world \<Rightarrow> PitiviSourceItem option" where
  "media_sourceitem w s = (case medias s w of None \<Rightarrow> None | Some m \<Rightarrow> sourceitem m)"

definition constructed_type :: "error + (ptr \<times> world) \<Rightarrow> PitiviLayerType option" where
  "constructed_type r =
     (case r of Inl e \<Rightarrow> None | Inr (w, s) \<Rightarrow> map_option (\<lambda>m. media_type (private_m m)) (medias s w))"

definition constructed_gnl :: "error + (ptr \<times> world) \<Rightarrow> GnlObject option option" where
  "constructed_gnl r =
     (case r of Inl e \<Rightarrow> None
      | Inr (w, s) \<Rightarrow>
          map_option (\<lambda>si. case gnlsource si of None \<Rightarrow> None | Some g \<Rightarrow> gnls s g)
            (media_sourceitem w s))"

text \<open>
  Reading through the widget: its copy of the descriptor, the text of the file name and
  the pixels of the thumbnail the copy points at.
\<close>

definition media_descriptor :: "ptr \<Rightarrow> world \<Rightarrow> PitiviSourceFile option" where
  "media_descriptor w s =
     (case media_sourceitem w s of None \<Rightarrow> None
      | Some si \<Rightarrow> (case srcfile si of None \<Rightarrow> None | Some a \<Rightarrow> srcfiles s a))"

definition media_filename_text :: "ptr \<Rightarrow> world \<Rightarrow> string option" where
  "media_filename_text w s =
     (case media_descriptor w s of None \<Rightarrow> None | Some d \<Rightarrow> strings s (filename d))"

definition media_thumbnail :: "ptr \<Rightarrow> world \<Rightarrow> nat list option" where
  "media_thumbnail w s =
     (case media_descriptor w s of None \<Rightarrow> None
      | Some d \<Rightarrow> (case thumbs_effect d of None \<Rightarrow> None | Some a \<Rightarrow> pixbufs s a))"

text \<open>
  Writes by other code, after construction: a store to the fields of a descriptor, to
  the characters of a string, to the pixels of a pixbuf.
\<close>

definition write_descriptor :: "ptr \<Rightarrow> PitiviSourceFile \<Rightarrow> world \<Rightarrow> world" where
  "write_descriptor p d s = s\<lparr>srcfiles := (srcfiles s)(p \<mapsto> d)\<rparr>"

definition write_string :: "ptr \<Rightarrow> string \<Rightarrow> world \<Rightarrow> world" where
  "write_string a txt s = s\<lparr>strings := (strings s)(a \<mapsto> txt)\<rparr>"

definition write_pixbuf :: "ptr \<Rightarrow> nat list \<Rightarrow> world \<Rightarrow> world" where
  "write_pixbuf a px s = s\<lparr>pixbufs := (pixbufs s)(a \<mapsto> px)\<rparr>"

text \<open>
  An observation on the widget a constructor returned, after a later write.
\<close>

definition after_new :: "error + (ptr \<times> world) \<Rightarrow> (world \<Rightarrow> world) \<Rightarrow> (ptr \<Rightarrow> world \<Rightarrow> 'a option) \<Rightarrow> 'a option" where
  "after_new r later observe = (case r of Inl e \<Rightarrow> None | Inr (w, s) \<Rightarrow> observe w (later s))"

text \<open>
  The same store with track 1 a transition track.
\<close>

definition demo_transition_world :: world where
  "demo_transition_world =
     demo_world\<lparr>cells := (cells demo_world)(1 \<mapsto>
       \<lparr>track_type = PITIVI_TRANSITION_TRACK, nb_added = 2, linked_track = None, children = []\<rparr>)\<rparr>"

text \<open>
  What the split needs of a clip and of the track's counter: the clip is an allocated
  widget whose copy of the descriptor is allocated and names two live strings, and the
  name made from the counter fits its buffer wherever a name is made.
\<close>

definition clip_ok :: "ptr \<Rightarrow> world \<Rightarrow> bool" where
  "clip_ok w s =
     (w < brk s \<and>
      (case media_sourceitem w s of None \<Rightarrow> False
       | Some si \<Rightarrow>
           (case srcfile si of None \<Rightarrow> False
            | Some p \<Rightarrow>
                p < brk s \<and>
                (case srcfiles s p of None \<Rightarrow> False
                 | Some d \<Rightarrow> strings s (filename d) \<noteq> None \<and> strings s (mediatype d) \<noteq> None))))"

definition name_fits :: "PitiviTimelineCellRenderer \<Rightarrow> gint64 \<Rightarrow> bool" where
  "name_fits cr i =
     (track_type cr = PITIVI_TRANSITION_TRACK \<or> length (dec_int (sint i)) \<le> 7)"


text \<open>The example store with the cut tool as the cursor.\<close>

definition demo_cut_world :: world where
  "demo_cut_world = demo_world\<lparr>cursor := PITIVI_CURSOR_CUT\<rparr>"

text \<open>
  Where a widget is after a pointer handler, and where the widget it is linked to is.
\<close>

definition parent_after :: "error + (bool \<times> world) \<Rightarrow> ptr \<Rightarrow> ptr option option" where
  "parent_after r w =
     (case r of Inl e \<Rightarrow> None | Inr (handled, s) \<Rightarrow> map_option parent (medias s w))"

definition partner_parent_after :: "error + (bool \<times> world) \<Rightarrow> ptr \<Rightarrow> ptr option option" where
  "partner_parent_after r w =
     (case r of Inl e \<Rightarrow> None
      | Inr (handled, s) \<Rightarrow>
          (case medias s w of None \<Rightarrow> None
           | Some m \<Rightarrow> (case linked m of None \<Rightarrow> None | Some l \<Rightarrow> map_option parent (medias s l))))"

text \<open>
  The example store with the cut tool and the audio half moved to a third track (9),
  while track 1 is still linked to track 2.
\<close>

definition demo_stray_world :: world where
  "demo_stray_world =
     demo_cut_world\<lparr>
       medias := (medias demo_cut_world)(4 \<mapsto> (the (medias demo_cut_world 4))\<lparr>parent := Some 9\<rparr>),
       cells := (cells demo_cut_world)(
         2 \<mapsto> \<lparr>track_type = PITIVI_AUDIO_TRACK, nb_added = 2, linked_track = Some 1, children = []\<rparr>,
         9 \<mapsto> \<lparr>track_type = PITIVI_AUDIO_TRACK, nb_added = 0, linked_track = None,
                children = [(4, 50, 0)]\<rparr>)\<rparr>"

text \<open>What a widget is linked to in the store a handler returned.\<close>

definition linked_after :: "error + world \<Rightarrow> ptr \<Rightarrow> ptr option option" where
  "linked_after r w = (case r of Inl e \<Rightarrow> None | Inr s \<Rightarrow> map_option linked (medias s w))"

section \<open>Properties\<close>

lemma r_bind_Inr [simp]: "r_bind (Inr x) k = k x"
  by (simp add: r_bind_def)

lemma r_bind_Inl [simp]: "r_bind (Inl e) k = Inl e"
  by (simp add: r_bind_def)

text \<open>
  C10: reading a property fails the assertion for every property id: the get-property
  operation has no branch that returns, also not for the three properties the class
  installs as readable.
\<close>

theorem get_property_always_asserts:
  "pitivi_timelinemedia_get_property object property_id s = Inl AssertionFailed \<and>
   map (\<lambda>p. pitivi_timelinemedia_get_property object (fst (snd p)) s) installed_properties =
     [Inl AssertionFailed, Inl AssertionFailed, Inl AssertionFailed] \<and>
   map (\<lambda>p. snd (snd p)) installed_properties = [True, True, True]"
  by (simp add: pitivi_timelinemedia_get_property_def installed_properties_def)

text \<open>
  C9: on a clip with an object of the engine, put sets the play interval to start at the
  position given and to be as long as the media interval, which it leaves as it was.
\<close>

theorem put_interval:
  assumes "medias s media = Some m" and "sourceitem m = Some si" and "gnlsource si = Some g"
    and "gnls s g = Some obj"
    and "obj' = obj\<lparr>gnl_start := start,
                     gnl_stop := start + (gnl_media_stop obj - gnl_media_start obj)\<rparr>"
  shows "pitivi_timelinemedia_put media start s = Inr (s\<lparr>gnls := (gnls s)(g \<mapsto> obj')\<rparr>) \<and>
     gnl_stop obj' - gnl_start obj' = gnl_media_stop obj - gnl_media_start obj \<and>
     gnl_media_start obj' = gnl_media_start obj \<and>
     gnl_media_stop obj' = gnl_media_stop obj"
  using assms
  by (simp add: pitivi_timelinemedia_put_def media_gnlsource_def
      gnl_object_get_media_start_stop_def gnl_object_set_start_stop_def add_diff_eq)

theorem put_interval_witness:
  "pitivi_timelinemedia_put 3 700 demo_world =
      Inr (demo_world\<lparr>gnls := (gnls demo_world)(5 \<mapsto>
        \<lparr>gnl_name = ''clip.avi_video/audio_0'', gnl_element = 30, gnl_start = 700, gnl_stop = 5700,
         gnl_media_start = 0, gnl_media_stop = 5000, gnl_priority = 0\<rparr>)\<rparr>)"
  using put_interval [of demo_world 3 "the (medias demo_world 3)"
      "the (sourceitem (the (medias demo_world 3)))" 5 "the (gnls demo_world 5)" _ 700]
  by (simp add: demo_world_def)

text \<open>
  C8: whatever key is released, the key-release handler does what the delete operation
  does on the clip, fails where it fails, and reports the event as handled.
\<close>

theorem key_release_is_delete:
  "pitivi_timelinemedia_callb_key_release_event widget keyval s =
     (case pitivi_timelinemedia_callb_destroy widget s of
        Inl e \<Rightarrow> Inl e | Inr s' \<Rightarrow> Inr (True, s'))"
  by (simp add: pitivi_timelinemedia_callb_key_release_event_def r_bind_def)

text \<open>
  C7: the delete operation destroys the linked sibling, when there is one, and then the
  clip, if the clip is selected; on an unselected clip it changes nothing.
\<close>

theorem delete_iff_selected:
  assumes "medias s self = Some m"
    and "linked m = None \<or> (\<exists>l ml. linked m = Some l \<and> l \<noteq> self \<and> medias s l = Some ml)"
  shows "if selected m
     then \<exists>s'. pitivi_timelinemedia_callb_destroy self s = Inr s' \<and>
            medias s' = (\<lambda>w. if w = self \<or> Some w = linked m then None else medias s w) \<and>
            trace s' = trace s @ (case linked m of None \<Rightarrow> [] | Some l \<Rightarrow> [Destroy l]) @ [Destroy self]
     else pitivi_timelinemedia_callb_destroy self s = Inr s"
  using assms
  by (auto simp add: pitivi_timelinemedia_callb_destroy_def gtk_widget_destroy_def fun_eq_iff
      split: option.splits)

theorem delete_iff_selected_witness:
  "(\<exists>s'. pitivi_timelinemedia_callb_destroy 3 demo_world = Inr s' \<and>
      medias s' 3 = None \<and> medias s' 4 = None \<and> trace s' = [Destroy 4, Destroy 3]) \<and>
   pitivi_timelinemedia_callb_destroy 3
      (demo_world\<lparr>medias := (medias demo_world)(3 \<mapsto> (the (medias demo_world 3))\<lparr>selected := False\<rparr>)\<rparr>) =
     Inr (demo_world\<lparr>medias := (medias demo_world)(3 \<mapsto> (the (medias demo_world 3))\<lparr>selected := False\<rparr>)\<rparr>)"
  using delete_iff_selected [of demo_world 3 "the (medias demo_world 3)"]
    delete_iff_selected [of "demo_world\<lparr>medias := (medias demo_world)(3 \<mapsto> (the (medias demo_world 3))\<lparr>selected := False\<rparr>)\<rparr>"
      3 "(the (medias demo_world 3))\<lparr>selected := False\<rparr>"]
  by (auto simp add: demo_world_def)

text \<open>
  C6: dissociate changes the store only on a selected clip with a linked sibling: it
  clears the sibling's selected flag, repaints the sibling and sets linked to NULL on
  both sides. On anything else, and on a clip that is unselected or unlinked, it returns
  the store as it was, the trace of repaints included.
\<close>

theorem dissociate_effect:
  "(medias s self = None \<longrightarrow> pitivi_timelinemedia_callb_dissociate self s = Inr s) \<and>
   (\<forall>m. medias s self = Some m \<and> (linked m = None \<or> \<not> selected m) \<longrightarrow>
      pitivi_timelinemedia_callb_dissociate self s = Inr s) \<and>
   (\<forall>m l ml. medias s self = Some m \<and> selected m \<and> linked m = Some l \<and> l \<noteq> self \<and>
        medias s l = Some ml \<longrightarrow>
      pitivi_timelinemedia_callb_dissociate self s =
        Inr (s\<lparr>medias := (medias s)(l \<mapsto> ml\<lparr>selected := False, linked := None\<rparr>,
                                     self \<mapsto> m\<lparr>linked := None\<rparr>),
              trace := trace s @ [Expose l]\<rparr>))"
  by (auto simp add: pitivi_timelinemedia_callb_dissociate_def update_media_def
      pitivi_send_expose_event_def split: option.splits)

theorem dissociate_effect_witness:
  "pitivi_timelinemedia_callb_dissociate 3 demo_world =
     Inr (demo_world\<lparr>medias := (medias demo_world)(
            4 \<mapsto> (the (medias demo_world 4))\<lparr>selected := False, linked := None\<rparr>,
            3 \<mapsto> (the (medias demo_world 3))\<lparr>linked := None\<rparr>),
          trace := [Expose 4]\<rparr>) \<and>
   pitivi_timelinemedia_callb_dissociate 7 demo_world = Inr demo_world"
  using dissociate_effect [of demo_world 3] dissociate_effect [of demo_world 7]
  by (simp add: demo_world_def)

text \<open>
  C1 as stated fails: the handler of the deselect signal clears the flag of the clip it
  runs on and leaves the linked sibling selected.
\<close>

theorem deselect_leaves_sibling_selected:
  "map_option linked (medias demo_world 3) = Some (Some 4) \<and>
   sel_after (pitivi_timelinemedia_callb_deselect 3 demo_world) 3 = Some False \<and>
   sel_after (pitivi_timelinemedia_callb_deselect 3 demo_world) 4 = Some True"
  by (simp add: sel_after_def pitivi_timelinemedia_callb_deselect_def update_media_def
      pitivi_send_expose_event_def demo_world_def)

text \<open>
  The broadcast clears the flag of every widget it reaches and nothing else of the
  widgets.
\<close>

lemma deselect_all_result:
  "set ws \<subseteq> dom (medias s) \<Longrightarrow>
   \<exists>s'. deselect_all ws s = Inr s' \<and>
     medias s' = (\<lambda>w. map_option (\<lambda>m. if w \<in> set ws then m\<lparr>selected := False\<rparr> else m) (medias s w)) \<and>
     cursor s' = cursor s"
proof (induction ws arbitrary: s)
  case Nil
  then show ?case by (simp add: fun_eq_iff option.map_ident)
next
  case (Cons w ws)
  from Cons.prems obtain m where m: "medias s w = Some m" by auto
  define s1 where "s1 = pitivi_send_expose_event w (s\<lparr>medias := (medias s)(w \<mapsto> m\<lparr>selected := False\<rparr>)\<rparr>)"
  have step: "pitivi_timelinemedia_callb_deselect w s = Inr s1"
    using m by (simp add: pitivi_timelinemedia_callb_deselect_def update_media_def s1_def)
  have dom1: "set ws \<subseteq> dom (medias s1)"
    using Cons.prems by (auto simp add: s1_def pitivi_send_expose_event_def)
  from Cons.IH [OF dom1] obtain s' where s': "deselect_all ws s1 = Inr s'"
    "medias s' = (\<lambda>v. map_option (\<lambda>m. if v \<in> set ws then m\<lparr>selected := False\<rparr> else m) (medias s1 v))"
    "cursor s' = cursor s1" by blast
  have "medias s' = (\<lambda>v. map_option (\<lambda>m. if v \<in> set (w # ws) then m\<lparr>selected := False\<rparr> else m) (medias s v))"
    using m by (auto simp add: s' s1_def pitivi_send_expose_event_def fun_eq_iff)
  moreover have "cursor s' = cursor s"
    by (simp add: s' s1_def pitivi_send_expose_event_def)
  ultimately show ?case using step s' by simp
qed

text \<open>
  A counter below ten million prints in at most seven characters.
\<close>

lemma dec_nat_length: "n < 10 ^ k \<Longrightarrow> 0 < k \<Longrightarrow> length (dec_nat n) \<le> k"
proof (induction k arbitrary: n)
  case 0
  then show ?case by simp
next
  case (Suc k)
  show ?case
  proof (cases "n < 10")
    case True
    then show ?thesis by (simp add: dec_nat.simps)
  next
    case False
    with Suc.prems have k: "0 < k" by (cases k) auto
    have "n div 10 < 10 ^ k" using Suc.prems by (simp add: less_mult_imp_div_less mult.commute)
    from Suc.IH [OF this k] False show ?thesis by (simp add: dec_nat.simps [of n])
  qed
qed

lemma name_fits_counter:
  "0 \<le> sint i \<Longrightarrow> sint i < 10000000 \<Longrightarrow> name_fits cr i"
  using dec_nat_length [of "nat (sint i)" 7]
  by (simp add: name_fits_def dec_int_def)

text \<open>
  The name fits its buffer when the identifier prints in at most seven characters.
\<close>

lemma sprintf_name_fits:
  "length (dec_int (sint i)) \<le> 7 \<Longrightarrow>
   sprintf_name f m i = Inr (f @ ''_'' @ m @ ''_'' @ dec_int (sint i))"
  by (simp add: sprintf_name_def Let_def)

text \<open>
  The store after \<open>pitivi_timelinemedia_new\<close>, on a track that is not a transition track
  and on a transition track.
\<close>

lemma new_on_other_track:
  assumes "srcfiles s p = Some d" and "cells s c = Some cr"
    and "strings s (filename d) = Some f" and "strings s (mediatype d) = Some mt"
    and "track_type cr \<noteq> PITIVI_TRANSITION_TRACK"
    and "length (dec_int (sint (nb_added cr))) \<le> 7"
  shows "pitivi_timelinemedia_new cmt (Some p) (Some c) s =
     Inr (brk s,
       s\<lparr>medias := (medias s)(brk s \<mapsto> constructed_media p c (cmt p s)
              \<lparr>srcfile = Some (Suc (brk s)), id_si = nb_added cr,
               isaudio = (track_type cr = PITIVI_AUDIO_TRACK),
               gnlsource = Some (Suc (Suc (brk s)))\<rparr>),
         cells := (cells s)(c \<mapsto> cr\<lparr>nb_added := nb_added cr + 1\<rparr>),
         srcfiles := (srcfiles s)(Suc (brk s) \<mapsto> d),
         gnls := (gnls s)(Suc (Suc (brk s)) \<mapsto>
              \<lparr>gnl_name = f @ ''_'' @ mt @ ''_'' @ dec_int (sint (nb_added cr)),
               gnl_element = pipeline d, gnl_start = 0, gnl_stop = 0,
               gnl_media_start = 0, gnl_media_stop = length_sf d, gnl_priority = 0\<rparr>),
         brk := Suc (Suc (Suc (brk s)))\<rparr>)"
  using assms
  by (simp add: pitivi_timelinemedia_new_def g_object_new_def pitivi_timelinemedia_constructor_def
      parent_constructor_def g_type_create_instance_def pitivi_timelinemedia_instance_init_def
      pitivi_timelinemedia_set_property_def set_private_def update_media_def
      g_value_get_int_def g_value_get_pointer_def PROP_MEDIA_TYPE_def PROP_SOURCEFILE_def PROP_CELL_def
      sprintf_name_fits gnl_source_new_def gnl_object_set_media_start_stop_def
      constructed_media_def Let_def)

lemma new_on_transition_track:
  assumes "srcfiles s p = Some d" and "cells s c = Some cr"
    and "track_type cr = PITIVI_TRANSITION_TRACK"
  shows "pitivi_timelinemedia_new cmt (Some p) (Some c) s =
     Inr (brk s,
       s\<lparr>medias := (medias s)(brk s \<mapsto> constructed_media p c (cmt p s)
              \<lparr>srcfile = Some (Suc (brk s)), id_si = nb_added cr,
               isaudio = False, gnlsource = None\<rparr>),
         cells := (cells s)(c \<mapsto> cr\<lparr>nb_added := nb_added cr + 1\<rparr>),
         srcfiles := (srcfiles s)(Suc (brk s) \<mapsto> d),
         brk := Suc (Suc (brk s))\<rparr>)"
  using assms
  by (simp add: pitivi_timelinemedia_new_def g_object_new_def pitivi_timelinemedia_constructor_def
      parent_constructor_def g_type_create_instance_def pitivi_timelinemedia_instance_init_def
      pitivi_timelinemedia_set_property_def set_private_def update_media_def
      g_value_get_int_def g_value_get_pointer_def PROP_MEDIA_TYPE_def PROP_SOURCEFILE_def PROP_CELL_def
      constructed_media_def Let_def)

lemma dec_2: "dec_int (sint (2 :: gint64)) = ''2''" "dec_int 2 = ''2''"
  by (simp_all add: dec_int_def dec_nat.simps)

text \<open>
  C2 as stated fails: whether an object of the engine is created follows the type of the
  track, not the media type of the clip. A clip of media type transition on a video track
  gets one, and a clip of media type video on a transition track gets none.
\<close>

theorem engine_object_follows_media_type_counterexample:
  "constructed_type (pitivi_timelinemedia_new always_transition (Some 20) (Some 1) demo_world)
     = Some PITIVI_TRANSITION_TRACK \<and>
   map_option (map_option gnl_name)
     (constructed_gnl (pitivi_timelinemedia_new always_transition (Some 20) (Some 1) demo_world))
     = Some (Some ''clip.avi_video/audio_2'') \<and>
   constructed_type (pitivi_timelinemedia_new always_video (Some 20) (Some 1) demo_transition_world)
     = Some PITIVI_VIDEO_TRACK \<and>
   constructed_gnl (pitivi_timelinemedia_new always_video (Some 20) (Some 1) demo_transition_world)
     = Some None"
proof -
  have a: "pitivi_timelinemedia_new always_transition (Some 20) (Some 1) demo_world =
     Inr (100,
       demo_world\<lparr>medias := (medias demo_world)(100 \<mapsto> constructed_media 20 1 PITIVI_TRANSITION_TRACK
              \<lparr>srcfile = Some 101, id_si = 2, isaudio = False, gnlsource = Some 102\<rparr>),
         cells := (cells demo_world)(1 \<mapsto> (the (cells demo_world 1))\<lparr>nb_added := 3\<rparr>),
         srcfiles := (srcfiles demo_world)(101 \<mapsto> the (srcfiles demo_world 20)),
         gnls := (gnls demo_world)(102 \<mapsto>
              \<lparr>gnl_name = ''clip.avi_video/audio_2'',
               gnl_element = 30, gnl_start = 0, gnl_stop = 0,
               gnl_media_start = 0, gnl_media_stop = 5000, gnl_priority = 0\<rparr>),
         brk := 103\<rparr>)"
    using new_on_other_track [of demo_world 20 "the (srcfiles demo_world 20)" 1
        "the (cells demo_world 1)" "''clip.avi''" "''video/audio''" always_transition]
    by (simp add: demo_world_def dec_2)
  have b: "pitivi_timelinemedia_new always_video (Some 20) (Some 1) demo_transition_world =
     Inr (100,
       demo_transition_world\<lparr>medias := (medias demo_world)(100 \<mapsto> constructed_media 20 1 PITIVI_VIDEO_TRACK
              \<lparr>srcfile = Some 101, id_si = 2, isaudio = False, gnlsource = None\<rparr>),
         cells := (cells demo_transition_world)(1 \<mapsto> (the (cells demo_transition_world 1))\<lparr>nb_added := 3\<rparr>),
         srcfiles := (srcfiles demo_world)(101 \<mapsto> the (srcfiles demo_world 20)),
         brk := 102\<rparr>)"
    using new_on_transition_track [of demo_transition_world 20 "the (srcfiles demo_world 20)" 1
        "the (cells demo_transition_world 1)" always_video]
    by (simp add: demo_transition_world_def demo_world_def)
  show ?thesis
    unfolding a b
    by (simp add: constructed_type_def constructed_gnl_def media_sourceitem_def constructed_media_def
        always_video_def always_transition_def)
qed

text \<open>
  C2, amended: construction on a transition track creates no object of the engine; on
  any other track, when the identifier prints in at most seven characters, it creates
  exactly one, at a new address, named filename_mediatype_identifier, with the media
  interval from 0 to the descriptor's length. The identifier is the track's counter.
\<close>

theorem engine_object_by_track_type:
  assumes "srcfiles s p = Some d" and "cells s c = Some cr"
    and "strings s (filename d) = Some f" and "strings s (mediatype d) = Some mt"
    and "dom (gnls s) \<subseteq> {..< brk s}"
    and "track_type cr = PITIVI_TRANSITION_TRACK \<or> length (dec_int (sint (nb_added cr))) \<le> 7"
  shows "\<exists>s'. pitivi_timelinemedia_new cmt (Some p) (Some c) s = Inr (brk s, s') \<and>
     map_option id_si (media_sourceitem (brk s) s') = Some (nb_added cr) \<and>
     (if track_type cr = PITIVI_TRANSITION_TRACK
      then gnls s' = gnls s \<and> map_option gnlsource (media_sourceitem (brk s) s') = Some None
      else \<exists>g. g \<notin> dom (gnls s) \<and>
             map_option gnlsource (media_sourceitem (brk s) s') = Some (Some g) \<and>
             gnls s' = (gnls s)(g \<mapsto>
               \<lparr>gnl_name = f @ ''_'' @ mt @ ''_'' @ dec_int (sint (nb_added cr)),
                gnl_element = pipeline d, gnl_start = 0, gnl_stop = 0,
                gnl_media_start = 0, gnl_media_stop = length_sf d, gnl_priority = 0\<rparr>))"
proof (cases "track_type cr = PITIVI_TRANSITION_TRACK")
  case True
  show ?thesis
    using True
    by (simp add: new_on_transition_track [OF assms(1,2) True] media_sourceitem_def
        constructed_media_def)
next
  case False
  with assms(6) have fits: "length (dec_int (sint (nb_added cr))) \<le> 7" by simp
  have fresh: "Suc (Suc (brk s)) \<notin> dom (gnls s)"
    using assms(5) by auto
  show ?thesis
    using False fresh
    by (simp add: new_on_other_track [OF assms(1-4) False fits] media_sourceitem_def
        constructed_media_def)
qed

theorem engine_object_by_track_type_witness:
  "(\<exists>s'. pitivi_timelinemedia_new always_video (Some 20) (Some 1) demo_world = Inr (100, s') \<and>
      (\<exists>g. g \<notin> dom (gnls demo_world) \<and>
         map_option gnlsource (media_sourceitem 100 s') = Some (Some g) \<and>
         gnls s' = (gnls demo_world)(g \<mapsto>
               \<lparr>gnl_name = ''clip.avi_video/audio_2'',
                gnl_element = 30, gnl_start = 0, gnl_stop = 0,
                gnl_media_start = 0, gnl_media_stop = 5000, gnl_priority = 0\<rparr>))) \<and>
   (\<exists>s'. pitivi_timelinemedia_new always_video (Some 20) (Some 1) demo_transition_world = Inr (100, s') \<and>
      gnls s' = gnls demo_world \<and> map_option gnlsource (media_sourceitem 100 s') = Some None)"
  using engine_object_by_track_type [of demo_world 20 "the (srcfiles demo_world 20)" 1
        "the (cells demo_world 1)" "''clip.avi''" "''video/audio''" always_video]
    engine_object_by_track_type [of demo_transition_world 20 "the (srcfiles demo_world 20)" 1
        "the (cells demo_transition_world 1)" "''clip.avi''" "''video/audio''" always_video]
  by (auto simp add: demo_transition_world_def demo_world_def dec_2)

text \<open>
  C5 as stated fails: the copy is a \<open>memcpy\<close> of the struct, so the copy's file name and
  thumbnail are the original's pointers. A later write to the characters of the original's
  file name, or to the pixels of its thumbnail, shows through the widget's copy.
\<close>

theorem deep_copy_counterexample:
  "map_option filename (srcfiles demo_world 20) = Some 10 \<and>
   map_option thumbs_effect (srcfiles demo_world 20) = Some (Some 40) \<and>
   after_new (pitivi_timelinemedia_new always_video (Some 20) (Some 1) demo_world)
     id media_filename_text = Some ''clip.avi'' \<and>
   after_new (pitivi_timelinemedia_new always_video (Some 20) (Some 1) demo_world)
     (write_string 10 ''gone.avi'') media_filename_text = Some ''gone.avi'' \<and>
   after_new (pitivi_timelinemedia_new always_video (Some 20) (Some 1) demo_world)
     id media_thumbnail = Some [1, 2, 3] \<and>
   after_new (pitivi_timelinemedia_new always_video (Some 20) (Some 1) demo_world)
     (write_pixbuf 40 [0, 0, 0]) media_thumbnail = Some [0, 0, 0]"
proof -
  have a: "pitivi_timelinemedia_new always_video (Some 20) (Some 1) demo_world =
     Inr (100,
       demo_world\<lparr>medias := (medias demo_world)(100 \<mapsto> constructed_media 20 1 PITIVI_VIDEO_TRACK
              \<lparr>srcfile = Some 101, id_si = 2, isaudio = False, gnlsource = Some 102\<rparr>),
         cells := (cells demo_world)(1 \<mapsto> (the (cells demo_world 1))\<lparr>nb_added := 3\<rparr>),
         srcfiles := (srcfiles demo_world)(101 \<mapsto> the (srcfiles demo_world 20)),
         gnls := (gnls demo_world)(102 \<mapsto>
              \<lparr>gnl_name = ''clip.avi_video/audio_2'',
               gnl_element = 30, gnl_start = 0, gnl_stop = 0,
               gnl_media_start = 0, gnl_media_stop = 5000, gnl_priority = 0\<rparr>),
         brk := 103\<rparr>)"
    using new_on_other_track [of demo_world 20 "the (srcfiles demo_world 20)" 1
        "the (cells demo_world 1)" "''clip.avi''" "''video/audio''" always_video]
    by (simp add: demo_world_def dec_2)
  show ?thesis
    unfolding a
    by (simp add: after_new_def media_filename_text_def media_thumbnail_def media_descriptor_def
        media_sourceitem_def constructed_media_def write_string_def write_pixbuf_def demo_world_def)
qed

text \<open>
  C5, amended: construction copies the descriptor's fields into storage of the widget's
  own, at a new address; a later store to the fields of the original descriptor leaves
  the widget's copy as it was.
\<close>

theorem descriptor_copied_by_value:
  assumes "srcfiles s p = Some d" and "cells s c = Some cr"
    and "strings s (filename d) = Some f" and "strings s (mediatype d) = Some mt"
    and "p < brk s"
    and "track_type cr = PITIVI_TRANSITION_TRACK \<or> length (dec_int (sint (nb_added cr))) \<le> 7"
  shows "\<exists>s'. pitivi_timelinemedia_new cmt (Some p) (Some c) s = Inr (brk s, s') \<and>
     map_option srcfile (media_sourceitem (brk s) s') = Some (Some (Suc (brk s))) \<and>
     Suc (brk s) \<noteq> p \<and>
     media_descriptor (brk s) s' = Some d \<and>
     media_descriptor (brk s) (write_descriptor p d' s') = Some d"
proof (cases "track_type cr = PITIVI_TRANSITION_TRACK")
  case True
  show ?thesis
    using assms(5)
    by (simp add: new_on_transition_track [OF assms(1,2) True] media_sourceitem_def
        media_descriptor_def write_descriptor_def constructed_media_def)
next
  case False
  with assms(6) have fits: "length (dec_int (sint (nb_added cr))) \<le> 7" by simp
  show ?thesis
    using assms(5)
    by (simp add: new_on_other_track [OF assms(1-4) False fits] media_sourceitem_def
        media_descriptor_def write_descriptor_def constructed_media_def)
qed

theorem descriptor_copied_by_value_witness:
  "\<exists>s'. pitivi_timelinemedia_new always_video (Some 20) (Some 1) demo_world =
        Inr (brk demo_world, s') \<and>
     map_option srcfile (media_sourceitem (brk demo_world) s') = Some (Some (Suc (brk demo_world))) \<and>
     Suc (brk demo_world) \<noteq> 20 \<and>
     media_descriptor (brk demo_world) s' =
       Some \<lparr>filename = 10, mediatype = 11, length_sf = 5000, pipeline = 30, thumbs_effect = Some 40\<rparr> \<and>
     media_descriptor (brk demo_world) (write_descriptor 20
        \<lparr>filename = 11, mediatype = 10, length_sf = 1, pipeline = 0, thumbs_effect = None\<rparr> s') =
       Some \<lparr>filename = 10, mediatype = 11, length_sf = 5000, pipeline = 30, thumbs_effect = Some 40\<rparr>"
  by (rule descriptor_copied_by_value [of demo_world 20 _ 1
        "the (cells demo_world 1)" "''clip.avi''" "''video/audio''"])
    (simp_all add: demo_world_def dec_2)

text \<open>
  On any track, \<open>pitivi_timelinemedia_new\<close> returns the widget at the old \<open>brk\<close>, with the
  copy of the descriptor after it, and counts the widget on the track.
\<close>

lemma new_result:
  assumes "srcfiles s p = Some d" and "cells s c = Some cr"
    and "strings s (filename d) \<noteq> None" and "strings s (mediatype d) \<noteq> None"
    and "name_fits cr (nb_added cr)"
  shows "\<exists>si G n. 2 \<le> n \<and>
     pitivi_timelinemedia_new cmt (Some p) (Some c) s =
     Inr (brk s,
       s\<lparr>medias := (medias s)(brk s \<mapsto> constructed_media p c (cmt p s) si),
         cells := (cells s)(c \<mapsto> cr\<lparr>nb_added := nb_added cr + 1\<rparr>),
         srcfiles := (srcfiles s)(Suc (brk s) \<mapsto> d),
         gnls := G,
         brk := brk s + n\<rparr>)"
proof (cases "track_type cr = PITIVI_TRANSITION_TRACK")
  case True
  have "pitivi_timelinemedia_new cmt (Some p) (Some c) s =
     Inr (brk s,
       s\<lparr>medias := (medias s)(brk s \<mapsto> constructed_media p c (cmt p s)
              \<lparr>srcfile = Some (Suc (brk s)), id_si = nb_added cr,
               isaudio = False, gnlsource = None\<rparr>),
         cells := (cells s)(c \<mapsto> cr\<lparr>nb_added := nb_added cr + 1\<rparr>),
         srcfiles := (srcfiles s)(Suc (brk s) \<mapsto> d),
         gnls := gnls s,
         brk := brk s + 2\<rparr>)"
    by (simp add: new_on_transition_track [OF assms(1,2) True])
  then show ?thesis by (metis order_refl)
next
  case False
  with assms(5) have fits: "length (dec_int (sint (nb_added cr))) \<le> 7"
    by (simp add: name_fits_def)
  from assms(3,4) obtain f mt where
    f: "strings s (filename d) = Some f" and mt: "strings s (mediatype d) = Some mt" by auto
  have "pitivi_timelinemedia_new cmt (Some p) (Some c) s =
     Inr (brk s,
       s\<lparr>medias := (medias s)(brk s \<mapsto> constructed_media p c (cmt p s)
              \<lparr>srcfile = Some (Suc (brk s)), id_si = nb_added cr,
               isaudio = (track_type cr = PITIVI_AUDIO_TRACK),
               gnlsource = Some (Suc (Suc (brk s)))\<rparr>),
         cells := (cells s)(c \<mapsto> cr\<lparr>nb_added := nb_added cr + 1\<rparr>),
         srcfiles := (srcfiles s)(Suc (brk s) \<mapsto> d),
         gnls := (gnls s)(Suc (Suc (brk s)) \<mapsto>
              \<lparr>gnl_name = f @ ''_'' @ mt @ ''_'' @ dec_int (sint (nb_added cr)),
               gnl_element = pipeline d, gnl_start = 0, gnl_stop = 0,
               gnl_media_start = 0, gnl_media_stop = length_sf d, gnl_priority = 0\<rparr>),
         brk := brk s + 3\<rparr>)"
    by (simp add: new_on_other_track [OF assms(1,2) f mt False fits])
  moreover have "(2::nat) \<le> 3" by simp
  ultimately show ?thesis by blast
qed

lemma clip_okD:
  assumes "clip_ok w s" and "medias s w = Some A"
  shows "\<exists>si p d. sourceitem A = Some si \<and> srcfile si = Some p \<and> srcfiles s p = Some d \<and>
     strings s (filename d) \<noteq> None \<and> strings s (mediatype d) \<noteq> None \<and> w < brk s \<and> p < brk s"
  using assms
  by (auto simp add: clip_ok_def media_sourceitem_def split: option.splits)

text \<open>
  Rounding to binary64: the value once its exponent is known, and the values that are
  their own rounding, a whole number below \<open>2^53\<close> in magnitude over a power of two.
\<close>

lemma round_even_of_int: "round_even (of_int n) = n"
  by (simp add: round_even_def)

lemma binary64_at:
  assumes "2 powr (of_int e) \<le> \<bar>x\<bar>" and "\<bar>x\<bar> < 2 powr (of_int (e + 1))"
  shows "binary64 x = of_int (round_even (x / 2 powr (of_int (e - 52)))) * 2 powr (of_int (e - 52))"
proof -
  have pos: "0 < \<bar>x\<bar>" using assms(1) by (smt (verit) powr_gt_zero)
  then have "x \<noteq> 0" by simp
  have "\<lfloor>log 2 \<bar>x\<bar>\<rfloor> = e"
    using assms pos by (subst floor_log_eq_powr_iff) (simp_all add: add.commute)
  with \<open>x \<noteq> 0\<close> show ?thesis by (simp add: binary64_def Let_def)
qed

lemma binary64_exact:
  assumes x: "x = real_of_int m / 2 ^ k" and m: "\<bar>m\<bar> < 2 ^ 53"
  shows "binary64 x = x"
proof (cases "m = 0")
  case True
  then show ?thesis by (simp add: x binary64_def)
next
  case False
  then have x0: "x \<noteq> 0" by (simp add: x)
  define e where "e = \<lfloor>log 2 \<bar>x\<bar>\<rfloor>"
  have bounds: "2 powr (of_int e) \<le> \<bar>x\<bar>" "\<bar>x\<bar> < 2 powr (of_int (e + 1))"
    using x0 floor_log_eq_powr_iff [of "\<bar>x\<bar>" 2 e] by (simp_all add: e_def add.commute)
  have "\<bar>x\<bar> = real_of_int \<bar>m\<bar> / 2 ^ k" by (simp add: x abs_divide)
  also have "\<dots> < 2 ^ 53 / 2 ^ k"
    using m by (intro divide_strict_right_mono) (simp_all add: of_int_less_iff [symmetric, where 'a = real] del: of_int_less_iff)
  also have "\<dots> = 2 powr (53 - real k)"
    by (simp add: powr_diff powr_realpow [symmetric] del: powr_realpow)
  finally have "\<bar>x\<bar> < 2 powr (53 - real k)" .
  with bounds(1) have "2 powr (of_int e) < 2 powr (53 - real k)" by linarith
  then have "real_of_int e < 53 - real k" by simp
  then have ek: "e + int k \<le> 52" by linarith
  define j where "j = nat (52 - e - int k)"
  have j: "int j = 52 - e - int k" using ek by (simp add: j_def)
  have u: "2 powr (real_of_int (e - 52)) = 1 / (2 ^ j * 2 ^ k)"
  proof -
    have "real_of_int (e - 52) = - (real j + real k)" using j by simp
    then have "2 powr (of_int (e - 52)) = 2 powr (- (real j + real k))" by simp
    also have "\<dots> = inverse (2 powr (real j + real k))"
      by (rule powr_minus)
    also have "\<dots> = 1 / (2 powr real j * 2 powr real k)"
      by (simp add: powr_add inverse_eq_divide)
    also have "\<dots> = 1 / (2 ^ j * 2 ^ k)" by (simp add: powr_realpow)
    finally show ?thesis .
  qed
  have q: "x / 2 powr (of_int (e - 52)) = of_int (m * 2 ^ j)"
    unfolding u x by simp
  have "binary64 x = of_int (round_even (x / 2 powr (of_int (e - 52)))) * 2 powr (of_int (e - 52))"
    using x0 by (simp add: binary64_def Let_def e_def)
  also have "\<dots> = of_int (m * 2 ^ j) * 2 powr (of_int (e - 52))"
    by (simp only: q round_even_of_int)
  also have "\<dots> = x" unfolding u x by simp
  finally show ?thesis .
qed

lemma binary64_of_int: "\<bar>m\<bar> < 2 ^ 53 \<Longrightarrow> binary64 (real_of_int m) = real_of_int m"
  using binary64_exact [of "real_of_int m" m 0] by simp

text \<open>
  A tie: \<open>129 - 2^-46\<close> lies halfway between two doubles and goes to the even one.
\<close>

lemma binary64_tie: "binary64 (129 - 1 / 2 ^ 46) = 129"
proof -
  have b: "2 powr (of_int 7) \<le> \<bar>129 - 1 / 2 ^ 46 :: real\<bar>" "\<bar>129 - 1 / 2 ^ 46 :: real\<bar> < 2 powr (of_int (7 + 1))"
    by (simp_all add: powr_realpow [of 2 7, simplified] powr_realpow [of 2 8, simplified])
  have u: "2 powr (of_int (7 - 52)) = (1 / 2 ^ 45 :: real)"
    using powr_minus [of 2 "real 45"] by (simp add: powr_realpow inverse_eq_divide)
  show ?thesis
    unfolding binary64_at [OF b] u
    by (simp add: round_even_def)
qed

text \<open>
  On a pointer offset that is a whole number, with the cut inside the clip and the
  position not negative, the three values of the handler are the exact ones.
\<close>

lemma c_trunc_of_int: "c_trunc (real_of_int k) = k"
  by (simp add: c_trunc_def)

lemma sint32_bounds: "- (2 ^ 31) \<le> sint (a :: gint)" "sint (a :: gint) < 2 ^ 31"
  using sint_ge [of a] sint_lt [of a] by simp_all

lemma cut_of_whole:
  assumes "0 \<le> X + 2" and "X + 2 \<le> sint aw" and "0 \<le> sint ax + X + 2"
  shows "cut_pos ax (real_of_int X) = Inr (word_of_int (sint ax + X + 2))"
    and "cut_width aw (real_of_int X) = Inr (word_of_int (sint aw - (X + 2)))"
    and "cut_own_width (real_of_int X) = Inr (word_of_int (X + 2))"
proof -
  note b = sint32_bounds [of aw] sint32_bounds [of ax]
  have r1: "binary64 (real_of_int (sint ax) + real_of_int X) = real_of_int (sint ax + X)"
    using binary64_of_int [of "sint ax + X"] assms b by simp
  have r2: "binary64 (real_of_int (sint ax + X) + 2) = real_of_int (sint ax + X + 2)"
    using binary64_of_int [of "sint ax + X + 2"] assms b by simp
  have r3: "binary64 (real_of_int X + 2) = real_of_int (X + 2)"
    using binary64_of_int [of "X + 2"] assms b by simp
  have r4: "binary64 (real_of_int (sint aw) - real_of_int (X + 2)) = real_of_int (sint aw - (X + 2))"
    using binary64_of_int [of "sint aw - (X + 2)"] assms b by simp
  show "cut_pos ax (real_of_int X) = Inr (word_of_int (sint ax + X + 2))"
    unfolding cut_pos_def double_of_gint_def r1 r2 double_to_guint_def c_trunc_of_int
    using assms b by simp
  show "cut_width aw (real_of_int X) = Inr (word_of_int (sint aw - (X + 2)))"
    unfolding cut_width_def double_of_gint_def r3 r4 double_to_guint_def c_trunc_of_int
    using assms b by simp
  show "cut_own_width (real_of_int X) = Inr (word_of_int (X + 2))"
    unfolding cut_own_width_def r3 double_to_gint_def c_trunc_of_int
    using assms b by simp
qed

text \<open>
  Where the sums round: at the offset \<open>127 - 2^-46\<close>, on a clip at 50 of width 100, the
  own width is 129, the position 179, and the new width, \<open>-29\<close>, has no \<open>guint\<close>.
\<close>

lemma cut_at_tie:
  "cut_own_width (127 - 1 / 2 ^ 46) = Inr 129"
  "cut_pos 50 (127 - 1 / 2 ^ 46) = Inr 179"
  "cut_width 100 (127 - 1 / 2 ^ 46) = Inl UndefinedConversion"
proof -
  have t1: "binary64 (127 - 1 / 2 ^ 46 + 2) = 129"
    using binary64_tie by simp
  have b: "2 powr (of_int 7) \<le> \<bar>50 + (127 - 1 / 2 ^ 46) :: real\<bar>"
    "\<bar>50 + (127 - 1 / 2 ^ 46) :: real\<bar> < 2 powr (of_int (7 + 1))"
    by (simp_all add: powr_realpow [of 2 7, simplified] powr_realpow [of 2 8, simplified])
  have u: "2 powr (of_int (7 - 52)) = (1 / 2 ^ 45 :: real)"
    using powr_minus [of 2 "real 45"] by (simp add: powr_realpow inverse_eq_divide)
  have t2: "binary64 (50 + (127 - 1 / 2 ^ 46)) = 177"
    unfolding binary64_at [OF b] u by (simp add: round_even_def)
  have t3: "binary64 (177 + 2) = 179" "binary64 (100 - 129) = - 29"
    using binary64_of_int [of 179] binary64_of_int [of "- 29"] by simp_all
  have d: "double_of_gint 50 = 50" "double_of_gint 100 = 100"
    by (simp_all add: double_of_gint_def)
  show "cut_own_width (127 - 1 / 2 ^ 46) = Inr 129"
    unfolding cut_own_width_def t1 by (simp add: double_to_gint_def c_trunc_def)
  show "cut_pos 50 (127 - 1 / 2 ^ 46) = Inr 179"
    unfolding cut_pos_def d t2 t3 by (simp add: double_to_guint_def c_trunc_def)
  show "cut_width 100 (127 - 1 / 2 ^ 46) = Inl UndefinedConversion"
    unfolding cut_width_def d t1 t3 by (simp add: double_to_guint_def c_trunc_def)
qed

text \<open>
  The release handler in cut mode up to the test of \<open>self->linked\<close>, when the three
  conversions are defined: the new clip is on the container at \<open>pos\<close> with the width
  \<open>width\<close>, the clip has its own new width, and the counter has gone up by two.
\<close>

lemma cut_first_half:
  assumes cut: "cursor s = PITIVI_CURSOR_CUT"
    and A: "medias s w = Some A" and ok: "clip_ok w s"
    and c: "parent A = Some c" and cr: "cells s c = Some cr"
    and fits: "name_fits cr (nb_added cr)"
    and si: "sourceitem A = Some si" and p: "srcfile si = Some p"
    and pos: "cut_pos (allocation_x A) x = Inr pos"
    and width: "cut_width (allocation_width A) x = Inr width"
    and own: "cut_own_width x = Inr own"
  shows "\<exists>si0 G n. 2 \<le> n \<and>
     pitivi_timelinemedia_button_release_event cmt FIXED_HEIGHT w x s =
       r_bind
        (r_bind
         (case linked A of
            None \<Rightarrow> Inr
              (s\<lparr>srcfiles := (srcfiles s)(Suc (brk s) \<mapsto> the (srcfiles s p)),
                gnls := G, brk := brk s + n,
                medias := (medias s)(
                  brk s \<mapsto> (constructed_media p c (cmt p s) si0)\<lparr>parent := Some c,
                     request_width := width, request_height := FIXED_HEIGHT\<rparr>,
                  w \<mapsto> A\<lparr>request_width := own, request_height := FIXED_HEIGHT\<rparr>),
                cells := (cells s)(c \<mapsto> cr\<lparr>children := children cr @ [(brk s, pos, 0)],
                  nb_added := nb_added cr + 2\<rparr>)\<rparr>)
          | Some b \<Rightarrow>
              cut_linked_half cmt FIXED_HEIGHT c (brk s) pos width x b
              (s\<lparr>srcfiles := (srcfiles s)(Suc (brk s) \<mapsto> the (srcfiles s p)),
                gnls := G, brk := brk s + n,
                medias := (medias s)(
                  brk s \<mapsto> (constructed_media p c (cmt p s) si0)\<lparr>parent := Some c,
                     request_width := width, request_height := FIXED_HEIGHT\<rparr>,
                  w \<mapsto> A\<lparr>request_width := own, request_height := FIXED_HEIGHT\<rparr>),
                cells := (cells s)(c \<mapsto> cr\<lparr>children := children cr @ [(brk s, pos, 0)],
                  nb_added := nb_added cr + 2\<rparr>)\<rparr>))
         (\<lambda>s7. Inr (s7\<lparr>trace := trace s7 @ [Emit_source_cut c x w]\<rparr>)))
        (\<lambda>s'. Inr (True, s'))"
proof -
  from clip_okD [OF ok A] si p obtain d where
    d: "srcfiles s p = Some d" and str: "strings s (filename d) \<noteq> None" "strings s (mediatype d) \<noteq> None"
    and wlt: "w < brk s"
    by auto
  from new_result [OF d cr str fits, of cmt] obtain si0 G n where n: "2 \<le> n"
    and new0: "pitivi_timelinemedia_new cmt (Some p) (Some c) s =
     Inr (brk s,
       s\<lparr>medias := (medias s)(brk s \<mapsto> constructed_media p c (cmt p s) si0),
         cells := (cells s)(c \<mapsto> cr\<lparr>nb_added := nb_added cr + 1\<rparr>),
         srcfiles := (srcfiles s)(Suc (brk s) \<mapsto> d),
         gnls := G,
         brk := brk s + n\<rparr>)" by blast
  have neq: "brk s \<noteq> w" using wlt by simp
  show ?thesis
  proof (intro exI conjI)
    show "2 \<le> n" by (rule n)
    show "pitivi_timelinemedia_button_release_event cmt FIXED_HEIGHT w x s =
       r_bind
        (r_bind
         (case linked A of
            None \<Rightarrow> Inr
              (s\<lparr>srcfiles := (srcfiles s)(Suc (brk s) \<mapsto> the (srcfiles s p)),
                gnls := G, brk := brk s + n,
                medias := (medias s)(
                  brk s \<mapsto> (constructed_media p c (cmt p s) si0)\<lparr>parent := Some c,
                     request_width := width, request_height := FIXED_HEIGHT\<rparr>,
                  w \<mapsto> A\<lparr>request_width := own, request_height := FIXED_HEIGHT\<rparr>),
                cells := (cells s)(c \<mapsto> cr\<lparr>children := children cr @ [(brk s, pos, 0)],
                  nb_added := nb_added cr + 2\<rparr>)\<rparr>)
          | Some b \<Rightarrow>
              cut_linked_half cmt FIXED_HEIGHT c (brk s) pos width x b
              (s\<lparr>srcfiles := (srcfiles s)(Suc (brk s) \<mapsto> the (srcfiles s p)),
                gnls := G, brk := brk s + n,
                medias := (medias s)(
                  brk s \<mapsto> (constructed_media p c (cmt p s) si0)\<lparr>parent := Some c,
                     request_width := width, request_height := FIXED_HEIGHT\<rparr>,
                  w \<mapsto> A\<lparr>request_width := own, request_height := FIXED_HEIGHT\<rparr>),
                cells := (cells s)(c \<mapsto> cr\<lparr>children := children cr @ [(brk s, pos, 0)],
                  nb_added := nb_added cr + 2\<rparr>)\<rparr>))
         (\<lambda>s7. Inr (s7\<lparr>trace := trace s7 @ [Emit_source_cut c x w]\<rparr>)))
        (\<lambda>s'. Inr (True, s'))"
      using cut A c cr si p d neq
      by (cases "linked A")
        (simp_all add: pitivi_timelinemedia_button_release_event_def Let_def media_srcfile_def new0
          pos width own
          gtk_layout_put_def update_media_def gtk_widget_set_size_request_def gtk_widget_show_def
          bump_nb_added_def media_linked_def constructed_media_def add.commute)
  qed
qed

text \<open>
  The block for the linked sibling, from any store that has the sibling, the first new
  clip and the container.
\<close>

lemma cut_linked_half_result:
  assumes B: "medias t b = Some B" and okb: "clip_ok b t"
    and sb: "sourceitem B = Some sb" and pb: "srcfile sb = Some pb"
    and M0: "medias t m0 = Some M0" and m0: "m0 < brk t" and neq: "m0 \<noteq> b"
    and cr: "cells t c = Some cr" and fits: "name_fits cr (nb_added cr)"
    and ltr: "case linked_track cr of None \<Rightarrow> True | Some lt \<Rightarrow> cells t lt \<noteq> None"
    and own: "cut_own_width x = Inr own"
  shows "\<exists>si1 t' cr'. cut_linked_half cmt FIXED_HEIGHT c m0 pos width x b t = Inr t' \<and>
     medias t' (brk t) = Some ((constructed_media pb c (cmt pb t) si1)\<lparr>parent := linked_track cr,
        request_width := width, request_height := FIXED_HEIGHT, linked := Some m0\<rparr>) \<and>
     medias t' b = Some (B\<lparr>request_width := own, request_height := FIXED_HEIGHT\<rparr>) \<and>
     medias t' m0 = Some (M0\<lparr>linked := Some (brk t)\<rparr>) \<and>
     (\<forall>v. v \<noteq> brk t \<and> v \<noteq> b \<and> v \<noteq> m0 \<longrightarrow> medias t' v = medias t v) \<and>
     cells t' c = Some cr' \<and> nb_added cr' = nb_added cr + 2 \<and>
     set (children cr) \<subseteq> set (children cr') \<and>
     (case linked_track cr of None \<Rightarrow> True
      | Some lt \<Rightarrow> (case cells t' lt of None \<Rightarrow> False
                    | Some lr \<Rightarrow> (brk t, pos, 0) \<in> set (children lr))) \<and>
     trace t' = trace t"
proof -
  from clip_okD [OF okb B] sb pb obtain d where
    d: "srcfiles t pb = Some d" and str: "strings t (filename d) \<noteq> None" "strings t (mediatype d) \<noteq> None"
    and blt: "b < brk t"
    by auto
  from new_result [OF d cr str fits, of cmt] obtain si1 G n where n: "2 \<le> n"
    and new1: "pitivi_timelinemedia_new cmt (Some pb) (Some c) t =
     Inr (brk t,
       t\<lparr>medias := (medias t)(brk t \<mapsto> constructed_media pb c (cmt pb t) si1),
         cells := (cells t)(c \<mapsto> cr\<lparr>nb_added := nb_added cr + 1\<rparr>),
         srcfiles := (srcfiles t)(Suc (brk t) \<mapsto> d),
         gnls := G,
         brk := brk t + n\<rparr>)" by blast
  have ne: "brk t \<noteq> b" "brk t \<noteq> m0" "b \<noteq> m0" using blt m0 neq by auto
  show ?thesis
  proof (cases "linked_track cr")
    case None
    show ?thesis
      using B M0 cr sb pb ne None
      by (intro exI [of _ si1])
        (simp add: cut_linked_half_def media_srcfile_def new1 own
          gtk_layout_put_def update_media_def gtk_widget_set_size_request_def gtk_widget_show_def
          bump_nb_added_def constructed_media_def add.commute)
  next
    case (Some lt)
    with ltr obtain lr where lr: "cells t lt = Some lr" by auto
    show ?thesis
    proof (cases "lt = c")
      case True
      show ?thesis
        using B M0 cr sb pb ne Some True
        by (intro exI [of _ si1])
          (auto simp add: cut_linked_half_def media_srcfile_def new1 own
          gtk_layout_put_def update_media_def gtk_widget_set_size_request_def gtk_widget_show_def
          bump_nb_added_def constructed_media_def add.commute)
    next
      case False
      show ?thesis
        using B M0 cr sb pb ne Some False lr
        by (intro exI [of _ si1])
          (simp add: cut_linked_half_def media_srcfile_def new1 own
          gtk_layout_put_def update_media_def gtk_widget_set_size_request_def gtk_widget_show_def
          bump_nb_added_def constructed_media_def add.commute)
    qed
  qed
qed

text \<open>
  The whole split, for any pointer offset at which the conversions are defined: what
  the clip, the sibling and the new clips are afterwards, and that no other widget
  changes.
\<close>

lemma split_result:
  assumes cut: "cursor s = PITIVI_CURSOR_CUT"
    and A: "medias s w = Some A" and ok: "clip_ok w s"
    and c: "parent A = Some c" and cr: "cells s c = Some cr"
    and fits: "name_fits cr (nb_added cr)"
    and si: "sourceitem A = Some sa" and p: "srcfile sa = Some p"
    and pos: "cut_pos (allocation_x A) x = Inr pos"
    and width: "cut_width (allocation_width A) x = Inr width"
    and own: "cut_own_width x = Inr own"
    and lnk: "case linked A of None \<Rightarrow> True
       | Some b \<Rightarrow> b \<noteq> w \<and> clip_ok b s \<and> name_fits cr (nb_added cr + 2) \<and>
           (case linked_track cr of None \<Rightarrow> True | Some lt \<Rightarrow> cells s lt \<noteq> None)"
  shows "\<exists>si0 s' cr'. pitivi_timelinemedia_button_release_event cmt FIXED_HEIGHT w x s = Inr (True, s') \<and>
     brk s \<noteq> w \<and>
     medias s' w = Some (A\<lparr>request_width := own, request_height := FIXED_HEIGHT\<rparr>) \<and>
     cells s' c = Some cr' \<and> (brk s, pos, 0) \<in> set (children cr') \<and>
     (case linked A of
        None \<Rightarrow>
          medias s' (brk s) = Some ((constructed_media p c (cmt p s) si0)\<lparr>parent := Some c,
             request_width := width, request_height := FIXED_HEIGHT\<rparr>) \<and>
          (\<forall>v. v \<noteq> brk s \<and> v \<noteq> w \<longrightarrow> medias s' v = medias s v)
      | Some b \<Rightarrow> (\<exists>m1 B sb pb si1 ty. brk s < m1 \<and> m1 \<noteq> w \<and> m1 \<noteq> b \<and> brk s \<noteq> b \<and>
           medias s b = Some B \<and> sourceitem B = Some sb \<and> srcfile sb = Some pb \<and>
           medias s' (brk s) = Some ((constructed_media p c (cmt p s) si0)\<lparr>parent := Some c,
             request_width := width, request_height := FIXED_HEIGHT, linked := Some m1\<rparr>) \<and>
           medias s' m1 = Some ((constructed_media pb c ty si1)\<lparr>parent := linked_track cr,
             request_width := width, request_height := FIXED_HEIGHT, linked := Some (brk s)\<rparr>) \<and>
           medias s' b = Some (B\<lparr>request_width := own, request_height := FIXED_HEIGHT\<rparr>) \<and>
           (\<forall>v. v \<noteq> brk s \<and> v \<noteq> w \<and> v \<noteq> m1 \<and> v \<noteq> b \<longrightarrow> medias s' v = medias s v) \<and>
           (case linked_track cr of None \<Rightarrow> True
            | Some lt \<Rightarrow> (case cells s' lt of None \<Rightarrow> False
                | Some lr \<Rightarrow> (m1, pos, 0) \<in> set (children lr)))))"
proof -
  from clip_okD [OF ok A] have wlt: "w < brk s" by blast
  from cut_first_half [OF cut A ok c cr fits si p pos width own, of cmt FIXED_HEIGHT] obtain si0 G n
    where n: "2 \<le> n"
    and first: "pitivi_timelinemedia_button_release_event cmt FIXED_HEIGHT w x s =
       r_bind
        (r_bind
         (case linked A of
            None \<Rightarrow> Inr
              (s\<lparr>srcfiles := (srcfiles s)(Suc (brk s) \<mapsto> the (srcfiles s p)),
                gnls := G, brk := brk s + n,
                medias := (medias s)(
                  brk s \<mapsto> (constructed_media p c (cmt p s) si0)\<lparr>parent := Some c,
                     request_width := width, request_height := FIXED_HEIGHT\<rparr>,
                  w \<mapsto> A\<lparr>request_width := own, request_height := FIXED_HEIGHT\<rparr>),
                cells := (cells s)(c \<mapsto> cr\<lparr>children := children cr @ [(brk s, pos, 0)],
                  nb_added := nb_added cr + 2\<rparr>)\<rparr>)
          | Some b \<Rightarrow>
              cut_linked_half cmt FIXED_HEIGHT c (brk s) pos width x b
              (s\<lparr>srcfiles := (srcfiles s)(Suc (brk s) \<mapsto> the (srcfiles s p)),
                gnls := G, brk := brk s + n,
                medias := (medias s)(
                  brk s \<mapsto> (constructed_media p c (cmt p s) si0)\<lparr>parent := Some c,
                     request_width := width, request_height := FIXED_HEIGHT\<rparr>,
                  w \<mapsto> A\<lparr>request_width := own, request_height := FIXED_HEIGHT\<rparr>),
                cells := (cells s)(c \<mapsto> cr\<lparr>children := children cr @ [(brk s, pos, 0)],
                  nb_added := nb_added cr + 2\<rparr>)\<rparr>))
         (\<lambda>s7. Inr (s7\<lparr>trace := trace s7 @ [Emit_source_cut c x w]\<rparr>)))
        (\<lambda>s'. Inr (True, s'))"
    by blast
  define S6 where "S6 = s\<lparr>srcfiles := (srcfiles s)(Suc (brk s) \<mapsto> the (srcfiles s p)),
                gnls := G, brk := brk s + n,
                medias := (medias s)(
                  brk s \<mapsto> (constructed_media p c (cmt p s) si0)\<lparr>parent := Some c,
                     request_width := width, request_height := FIXED_HEIGHT\<rparr>,
                  w \<mapsto> A\<lparr>request_width := own, request_height := FIXED_HEIGHT\<rparr>),
                cells := (cells s)(c \<mapsto> cr\<lparr>children := children cr @ [(brk s, pos, 0)],
                  nb_added := nb_added cr + 2\<rparr>)\<rparr>"
  have neq: "brk s \<noteq> w" using wlt by simp
  show ?thesis
  proof (cases "linked A")
    case None
    show ?thesis
      using None neq
      by (intro exI [of _ si0]) (simp add: first)
  next
    case (Some b)
    with lnk have bw: "b \<noteq> w" and okb: "clip_ok b s" and fits2: "name_fits cr (nb_added cr + 2)"
      and ltr: "case linked_track cr of None \<Rightarrow> True | Some lt \<Rightarrow> cells s lt \<noteq> None"
      by simp_all
    from okb obtain B where B: "medias s b = Some B"
      by (auto simp add: clip_ok_def media_sourceitem_def split: option.splits)
    from clip_okD [OF okb B] obtain sb pb d where sb: "sourceitem B = Some sb" and pb: "srcfile sb = Some pb"
      and d: "srcfiles s pb = Some d" and str: "strings s (filename d) \<noteq> None" "strings s (mediatype d) \<noteq> None"
      and blt: "b < brk s" and plt: "pb < brk s"
      by blast
    have eq: "pitivi_timelinemedia_button_release_event cmt FIXED_HEIGHT w x s =
       r_bind
        (r_bind
         (cut_linked_half cmt FIXED_HEIGHT c (brk s) pos width x b S6)
         (\<lambda>s7. Inr (s7\<lparr>trace := trace s7 @ [Emit_source_cut c x w]\<rparr>)))
        (\<lambda>s'. Inr (True, s'))"
      unfolding S6_def using Some by (simp add: first)
    have B6: "medias S6 b = Some B"
      using B blt bw by (simp add: S6_def)
    have ok6: "clip_ok b S6"
      using B sb pb d str blt plt bw n
      by (simp add: clip_ok_def media_sourceitem_def S6_def)
    have M6: "medias S6 (brk s) = Some ((constructed_media p c (cmt p s) si0)\<lparr>parent := Some c,
                     request_width := width, request_height := FIXED_HEIGHT\<rparr>)"
      using neq by (simp add: S6_def)
    have m6: "brk s < brk S6" using n by (simp add: S6_def)
    have nb6: "brk s \<noteq> b" using blt by simp
    have cr6: "cells S6 c = Some (cr\<lparr>children := children cr @ [(brk s, pos, 0)],
                  nb_added := nb_added cr + 2\<rparr>)"
      by (simp add: S6_def)
    have fits6: "name_fits (cr\<lparr>children := children cr @ [(brk s, pos, 0)],
                  nb_added := nb_added cr + 2\<rparr>)
          (nb_added (cr\<lparr>children := children cr @ [(brk s, pos, 0)],
                  nb_added := nb_added cr + 2\<rparr>))"
      using fits2 by (simp add: name_fits_def)
    have ltr6: "case linked_track (cr\<lparr>children := children cr @ [(brk s, pos, 0)],
                  nb_added := nb_added cr + 2\<rparr>) of None \<Rightarrow> True | Some lt \<Rightarrow> cells S6 lt \<noteq> None"
      using ltr by (simp add: S6_def split: option.splits)
    from cut_linked_half_result [OF B6 ok6 sb pb M6 m6 nb6 cr6 fits6 ltr6 own, of cmt FIXED_HEIGHT pos width]
    obtain t' si1 cr' where
      half: "cut_linked_half cmt FIXED_HEIGHT c (brk s) pos width x b S6 = Inr t'"
      and M1: "medias t' (brk S6) = Some ((constructed_media pb c (cmt pb S6) si1)\<lparr>parent := linked_track cr,
        request_width := width, request_height := FIXED_HEIGHT, linked := Some (brk s)\<rparr>)"
      and B': "medias t' b = Some (B\<lparr>request_width := own, request_height := FIXED_HEIGHT\<rparr>)"
      and M0': "medias t' (brk s) = Some ((constructed_media p c (cmt p s) si0)\<lparr>parent := Some c,
                     request_width := width, request_height := FIXED_HEIGHT, linked := Some (brk S6)\<rparr>)"
      and frame: "\<forall>v. v \<noteq> brk S6 \<and> v \<noteq> b \<and> v \<noteq> brk s \<longrightarrow> medias t' v = medias S6 v"
      and cr': "cells t' c = Some cr'"
        "set (children cr) \<union> {(brk s, pos, 0)} \<subseteq> set (children cr')"
      and lt': "case linked_track cr of None \<Rightarrow> True
          | Some lt \<Rightarrow> (case cells t' lt of None \<Rightarrow> False
              | Some lr \<Rightarrow> (brk S6, pos, 0) \<in> set (children lr))"
      by auto
    have w6: "w \<noteq> brk S6" using wlt m6 by simp
    have b6: "b \<noteq> brk S6" using blt m6 by simp
    have A': "medias t' w = Some (A\<lparr>request_width := own, request_height := FIXED_HEIGHT\<rparr>)"
      using frame w6 bw neq by (simp add: S6_def)
    have frame': "\<forall>v. v \<noteq> brk s \<and> v \<noteq> w \<and> v \<noteq> brk S6 \<and> v \<noteq> b \<longrightarrow> medias t' v = medias s v"
      using frame by (simp add: S6_def)
    have inner: "\<exists>m1 B sb pb si1 ty. brk s < m1 \<and> m1 \<noteq> w \<and> m1 \<noteq> b \<and> brk s \<noteq> b \<and>
           medias s b = Some B \<and> sourceitem B = Some sb \<and> srcfile sb = Some pb \<and>
           medias t' (brk s) = Some ((constructed_media p c (cmt p s) si0)\<lparr>parent := Some c,
             request_width := width, request_height := FIXED_HEIGHT, linked := Some m1\<rparr>) \<and>
           medias t' m1 = Some ((constructed_media pb c ty si1)\<lparr>parent := linked_track cr,
             request_width := width, request_height := FIXED_HEIGHT, linked := Some (brk s)\<rparr>) \<and>
           medias t' b = Some (B\<lparr>request_width := own, request_height := FIXED_HEIGHT\<rparr>) \<and>
           (\<forall>v. v \<noteq> brk s \<and> v \<noteq> w \<and> v \<noteq> m1 \<and> v \<noteq> b \<longrightarrow> medias t' v = medias s v) \<and>
           (case linked_track cr of None \<Rightarrow> True
            | Some lt \<Rightarrow> (case cells t' lt of None \<Rightarrow> False
                | Some lr \<Rightarrow> (m1, pos, 0) \<in> set (children lr)))"
      using m6 w6 b6 nb6 B sb pb M0' M1 B' frame' lt'
      by (intro exI [of _ "brk S6"] exI [of _ B] exI [of _ sb] exI [of _ pb] exI [of _ si1]
          exI [of _ "cmt pb S6"]) simp
    show ?thesis
      using Some neq A' cr' inner
      by (intro exI [of _ si0] exI [of _ "t'\<lparr>trace := trace t' @ [Emit_source_cut c x w]\<rparr>"] exI [of _ cr'])
        (simp add: eq half cong: option.case_cong)
  qed
qed

text \<open>
  The two clips of the example store can be split, and the three values of the handler
  at the offsets 10 and 10.5 on the clip at 50 of width 100.
\<close>

lemma demo_ok:
  "clip_ok 3 demo_cut_world" "clip_ok 4 demo_cut_world"
  "name_fits (the (cells demo_cut_world 1)) 2" "name_fits (the (cells demo_cut_world 1)) 4"
  by (simp_all add: clip_ok_def name_fits_def media_sourceitem_def demo_cut_world_def demo_world_def
      dec_int_def dec_nat.simps)

lemma demo_cut_whole:
  "cut_pos 50 10 = Inr 62" "cut_width 100 10 = Inr 88" "cut_own_width 10 = Inr 12"
  using cut_of_whole [of 10 100 50] by simp_all





text \<open>
  The example store with the audio half on a third track: both clips can be split, and
  what the store holds.
\<close>

lemma demo_stray_ok:
  "clip_ok 3 demo_stray_world" "clip_ok 4 demo_stray_world"
  "name_fits (the (cells demo_stray_world 1)) 2" "name_fits (the (cells demo_stray_world 1)) 4"
  by (simp_all add: clip_ok_def name_fits_def media_sourceitem_def demo_stray_world_def
      demo_cut_world_def demo_world_def dec_int_def dec_nat.simps)

lemma demo_stray_facts:
  "cursor demo_stray_world = PITIVI_CURSOR_CUT"
  "brk demo_stray_world = 100"
  "\<exists>A B cr sa sb.
     medias demo_stray_world 3 = Some A \<and> medias demo_stray_world 4 = Some B \<and>
     cells demo_stray_world 1 = Some cr \<and>
     sourceitem A = Some sa \<and> sourceitem B = Some sb \<and>
     srcfile sa = Some 21 \<and> srcfile sb = Some 22 \<and>
     parent A = Some 1 \<and> parent B = Some 9 \<and>
     linked A = Some 4 \<and> linked B = Some 3 \<and>
     allocation_x A = 50 \<and> allocation_width A = 100 \<and>
     linked_track cr = Some 2 \<and> nb_added cr = 2 \<and>
     name_fits cr 2 \<and> name_fits cr 4 \<and>
     cells demo_stray_world 2 \<noteq> None"
  by (simp_all add: demo_stray_world_def demo_cut_world_def demo_world_def name_fits_def
      dec_int_def dec_nat.simps)

text \<open>
  C4 as stated fails: the second new clip is put on the container's linked track, which
  need not be the sibling's track. With the sibling on track 9 and track 1 linked to
  track 2, the split of clip 3 leaves the sibling on track 9 and puts the new clip that
  the first new clip (100) is linked to on track 2.
\<close>

theorem mirrored_half_misses_sibling_track:
  "map_option linked (medias demo_stray_world 3) = Some (Some 4) \<and>
   map_option parent (medias demo_stray_world 4) = Some (Some 9) \<and>
   map_option linked_track (cells demo_stray_world 1) = Some (Some 2) \<and>
   brk demo_stray_world = 100 \<and>
   parent_after (pitivi_timelinemedia_button_release_event always_video 50 3 10 demo_stray_world) 4
     = Some (Some 9) \<and>
   parent_after (pitivi_timelinemedia_button_release_event always_video 50 3 10 demo_stray_world) 100
     = Some (Some 1) \<and>
   partner_parent_after (pitivi_timelinemedia_button_release_event always_video 50 3 10 demo_stray_world) 100
     = Some (Some 2)"
proof -
  from demo_stray_facts(3) obtain A B cr sa sb where f:
    "medias demo_stray_world 3 = Some A" "medias demo_stray_world 4 = Some B"
    "cells demo_stray_world 1 = Some cr"
    "sourceitem A = Some sa" "sourceitem B = Some sb"
    "srcfile sa = Some 21" "srcfile sb = Some 22"
    "parent A = Some 1" "parent B = Some 9"
    "linked A = Some 4" "linked B = Some 3"
    "allocation_x A = 50" "allocation_width A = 100"
    "linked_track cr = Some 2" "nb_added cr = 2"
    "name_fits cr 2" "name_fits cr 4"
    "cells demo_stray_world 2 \<noteq> None"
    by blast
  have lnk: "case linked A of None \<Rightarrow> True
       | Some b \<Rightarrow> b \<noteq> 3 \<and> clip_ok b demo_stray_world \<and> name_fits cr (nb_added cr + 2) \<and>
           (case linked_track cr of None \<Rightarrow> True | Some lt \<Rightarrow> cells demo_stray_world lt \<noteq> None)"
    using f demo_stray_ok(2) by simp
  have fits: "name_fits cr (nb_added cr)" using f by simp
  have conv: "cut_pos (allocation_x A) 10 = Inr 62" "cut_width (allocation_width A) 10 = Inr 88"
    "cut_own_width 10 = Inr 12"
    using f demo_cut_whole by simp_all
  from split_result [OF demo_stray_facts(1) f(1) demo_stray_ok(1) f(8) f(3) fits f(4) f(6) conv lnk,
      of always_video 50]
  obtain si0 s' cr' m1 B' sb' pb si1 ty where r:
    "pitivi_timelinemedia_button_release_event always_video 50 3 10 demo_stray_world = Inr (True, s')"
    "medias demo_stray_world 4 = Some B'"
    "medias s' (brk demo_stray_world) = Some ((constructed_media 21 1 (always_video 21 demo_stray_world) si0)\<lparr>parent := Some 1,
             request_width := 88, request_height := 50, linked := Some m1\<rparr>)"
    "medias s' m1 = Some ((constructed_media pb 1 ty si1)\<lparr>parent := linked_track cr,
             request_width := 88, request_height := 50, linked := Some (brk demo_stray_world)\<rparr>)"
    "medias s' 4 = Some (B'\<lparr>request_width := 12, request_height := 50\<rparr>)"
    unfolding f(10) option.case by blast
  have B': "B' = B" using r(2) f(2) by simp
  have a: "parent_after (pitivi_timelinemedia_button_release_event always_video 50 3 10 demo_stray_world) 4
     = Some (Some 9)"
    using r(5) f(9) by (simp add: r(1) parent_after_def B')
  have b: "parent_after (pitivi_timelinemedia_button_release_event always_video 50 3 10 demo_stray_world) 100
     = Some (Some 1)"
    using r(3) by (simp add: r(1) parent_after_def demo_stray_facts(2))
  have c: "partner_parent_after (pitivi_timelinemedia_button_release_event always_video 50 3 10 demo_stray_world) 100
     = Some (Some 2)"
    using r(3,4) f(14) by (simp add: r(1) partner_parent_after_def demo_stray_facts(2))
  show ?thesis
    using a b c f(1,2,3,8,9,10,14) demo_stray_facts(2) by simp
qed

text \<open>
  C4, amended: the split of a clip with a linked sibling, at an offset where the
  conversions are defined, makes a second new clip from the sibling's descriptor and the
  clip's own container, puts it on the container's linked track (on no track if the
  container has none) at the same position and with the same width as the first, shrinks
  the sibling as it shrinks the clip, and links the two new clips to each other. Neither
  new clip is one of the originals, whose linked fields stay as they were, and no other
  widget changes.
\<close>

theorem split_links_new_halves:
  assumes "cursor s = PITIVI_CURSOR_CUT"
    and "medias s w = Some A" and "clip_ok w s" and "sourceitem A = Some sa"
    and "parent A = Some c" and "cells s c = Some cr"
    and "name_fits cr (nb_added cr)"
    and "linked A = Some b" and "b \<noteq> w"
    and "medias s b = Some B" and "clip_ok b s" and "sourceitem B = Some sb"
    and "name_fits cr (nb_added cr + 2)"
    and "case linked_track cr of None \<Rightarrow> True | Some lt \<Rightarrow> cells s lt \<noteq> None"
    and "cut_pos (allocation_x A) x = Inr pos"
    and "cut_width (allocation_width A) x = Inr width"
    and "cut_own_width x = Inr own"
  shows "\<exists>s' m1 M0 M1 cr'.
     pitivi_timelinemedia_button_release_event cmt FIXED_HEIGHT w x s = Inr (True, s') \<and>
     brk s \<noteq> w \<and> brk s \<noteq> b \<and> m1 \<noteq> w \<and> m1 \<noteq> b \<and> m1 \<noteq> brk s \<and>
     medias s' (brk s) = Some M0 \<and> medias s' m1 = Some M1 \<and>
     linked M0 = Some m1 \<and> linked M1 = Some (brk s) \<and>
     medias s' w = Some (A\<lparr>request_width := own, request_height := FIXED_HEIGHT\<rparr>) \<and>
     medias s' b = Some (B\<lparr>request_width := own, request_height := FIXED_HEIGHT\<rparr>) \<and>
     (\<forall>v. v \<noteq> brk s \<and> v \<noteq> w \<and> v \<noteq> m1 \<and> v \<noteq> b \<longrightarrow> medias s' v = medias s v) \<and>
     parent M0 = Some c \<and> parent M1 = linked_track cr \<and>
     request_width M0 = width \<and> request_width M1 = width \<and>
     request_height M0 = FIXED_HEIGHT \<and> request_height M1 = FIXED_HEIGHT \<and>
     sf (private_m M0) = srcfile sa \<and> sf (private_m M1) = srcfile sb \<and>
     cell (private_m M0) = Some c \<and> cell (private_m M1) = Some c \<and>
     \<not> selected M0 \<and> \<not> selected M1 \<and>
     cells s' c = Some cr' \<and> (brk s, pos, 0) \<in> set (children cr') \<and>
     (case linked_track cr of None \<Rightarrow> True
      | Some lt \<Rightarrow> (case cells s' lt of None \<Rightarrow> False
          | Some lr \<Rightarrow> (m1, pos, 0) \<in> set (children lr)))"
proof -
  have lnk: "case linked A of None \<Rightarrow> True
       | Some b \<Rightarrow> b \<noteq> w \<and> clip_ok b s \<and> name_fits cr (nb_added cr + 2) \<and>
           (case linked_track cr of None \<Rightarrow> True | Some lt \<Rightarrow> cells s lt \<noteq> None)"
    using assms(8,9,11,13,14) by simp
  from clip_okD [OF assms(3,2)] assms(4) obtain p where p: "srcfile sa = Some p" by auto
  from split_result [OF assms(1-3,5-7,4) p assms(15-17) lnk, of cmt FIXED_HEIGHT] assms(8,10,12)
  obtain s' si0 cr' m1 pb si1 ty where r:
    "pitivi_timelinemedia_button_release_event cmt FIXED_HEIGHT w x s = Inr (True, s')"
    "brk s \<noteq> w"
    "medias s' w = Some (A\<lparr>request_width := own, request_height := FIXED_HEIGHT\<rparr>)"
    "cells s' c = Some cr'" "(brk s, pos, 0) \<in> set (children cr')"
    "brk s < m1" "m1 \<noteq> w" "m1 \<noteq> b" "brk s \<noteq> b"
    "srcfile sb = Some pb"
    "medias s' (brk s) = Some ((constructed_media p c (cmt p s) si0)\<lparr>parent := Some c,
             request_width := width, request_height := FIXED_HEIGHT, linked := Some m1\<rparr>)"
    "medias s' m1 = Some ((constructed_media pb c ty si1)\<lparr>parent := linked_track cr,
             request_width := width, request_height := FIXED_HEIGHT, linked := Some (brk s)\<rparr>)"
    "medias s' b = Some (B\<lparr>request_width := own, request_height := FIXED_HEIGHT\<rparr>)"
    "\<forall>v. v \<noteq> brk s \<and> v \<noteq> w \<and> v \<noteq> m1 \<and> v \<noteq> b \<longrightarrow> medias s' v = medias s v"
    "case linked_track cr of None \<Rightarrow> True
            | Some lt \<Rightarrow> (case cells s' lt of None \<Rightarrow> False
                | Some lr \<Rightarrow> (m1, pos, 0) \<in> set (children lr))"
    by auto
  show ?thesis
    using r p
    by (intro exI [of _ s'] exI [of _ m1]
        exI [of _ "(constructed_media p c (cmt p s) si0)\<lparr>parent := Some c,
             request_width := width, request_height := FIXED_HEIGHT, linked := Some m1\<rparr>"]
        exI [of _ "(constructed_media pb c ty si1)\<lparr>parent := linked_track cr,
             request_width := width, request_height := FIXED_HEIGHT, linked := Some (brk s)\<rparr>"]
        exI [of _ cr'])
      (simp add: constructed_media_def)
qed

text \<open>
  The amended C4 on the store with the sibling on track 9: the split of clip 3 at offset 10
  links the new clip 100 and a fresh clip to each other, the first on track 1 from
  descriptor 21, the second on track 2 from descriptor 22, both 88 wide; clips 3 and 4
  stay linked to each other.
\<close>

theorem split_links_new_halves_witness:
  "\<exists>s' m1 M0 M1.
     pitivi_timelinemedia_button_release_event always_video 50 3 10 demo_stray_world = Inr (True, s') \<and>
     m1 \<noteq> 3 \<and> m1 \<noteq> 4 \<and> m1 \<noteq> 100 \<and>
     medias s' 100 = Some M0 \<and> medias s' m1 = Some M1 \<and>
     linked M0 = Some m1 \<and> linked M1 = Some 100 \<and>
     map_option linked (medias s' 3) = Some (Some 4) \<and>
     map_option linked (medias s' 4) = Some (Some 3) \<and>
     parent M0 = Some 1 \<and> parent M1 = Some 2 \<and>
     request_width M0 = 88 \<and> request_width M1 = 88 \<and>
     sf (private_m M0) = Some 21 \<and> sf (private_m M1) = Some 22"
proof -
  from demo_stray_facts(3) obtain A B cr sa sb where f:
    "medias demo_stray_world 3 = Some A" "medias demo_stray_world 4 = Some B"
    "cells demo_stray_world 1 = Some cr"
    "sourceitem A = Some sa" "sourceitem B = Some sb"
    "srcfile sa = Some 21" "srcfile sb = Some 22"
    "parent A = Some 1" "parent B = Some 9"
    "linked A = Some 4" "linked B = Some 3"
    "allocation_x A = 50" "allocation_width A = 100"
    "linked_track cr = Some 2" "nb_added cr = 2"
    "name_fits cr 2" "name_fits cr 4"
    "cells demo_stray_world 2 \<noteq> None"
    by blast
  have fits: "name_fits cr (nb_added cr)" "name_fits cr (nb_added cr + 2)" using f by simp_all
  have ltr: "case linked_track cr of None \<Rightarrow> True | Some lt \<Rightarrow> cells demo_stray_world lt \<noteq> None"
    using f by simp
  have conv: "cut_pos (allocation_x A) 10 = Inr 62" "cut_width (allocation_width A) 10 = Inr 88"
    "cut_own_width 10 = Inr 12"
    using f demo_cut_whole by simp_all
  have ne: "(4::nat) \<noteq> 3" by simp
  from split_links_new_halves [OF demo_stray_facts(1) f(1) demo_stray_ok(1) f(4) f(8) f(3) fits(1)
      f(10) ne f(2) demo_stray_ok(2) f(5) fits(2) ltr conv, of always_video 50]
  obtain s' m1 M0 M1 where r:
    "pitivi_timelinemedia_button_release_event always_video 50 3 10 demo_stray_world = Inr (True, s')"
    "m1 \<noteq> 3" "m1 \<noteq> 4" "m1 \<noteq> brk demo_stray_world"
    "medias s' (brk demo_stray_world) = Some M0" "medias s' m1 = Some M1"
    "linked M0 = Some m1" "linked M1 = Some (brk demo_stray_world)"
    "medias s' 3 = Some (A\<lparr>request_width := 12, request_height := 50\<rparr>)"
    "medias s' 4 = Some (B\<lparr>request_width := 12, request_height := 50\<rparr>)"
    "parent M0 = Some 1" "parent M1 = linked_track cr"
    "request_width M0 = 88" "request_width M1 = 88"
    "sf (private_m M0) = srcfile sa" "sf (private_m M1) = srcfile sb"
    by blast
  show ?thesis
    using r f(6,7,10,11,14)
    by (intro exI [of _ s'] exI [of _ m1] exI [of _ M0] exI [of _ M1])
      (simp add: demo_stray_facts(2))
qed

subsection \<open>The selected flags of a linked pair\<close>

text \<open>The facts of the two demonstration stores that the pair of clips 3 and 4 needs.\<close>

lemma demo_pair_facts:
  "cursor demo_world = PITIVI_CURSOR_SELECT"
  "cursor demo_cut_world = PITIVI_CURSOR_CUT"
  "brk demo_cut_world = 100"
  "set [3, 4] \<subseteq> dom (medias demo_world)"
  "medias demo_cut_world = medias demo_world"
  "\<exists>A B cr.
     medias demo_world 3 = Some A \<and> medias demo_world 4 = Some B \<and>
     cells demo_cut_world 1 = Some cr \<and>
     parent A = Some 1 \<and> linked A = Some 4 \<and> selected A \<and> selected B \<and>
     allocation_x A = 50 \<and> allocation_width A = 100 \<and>
     linked_track cr = Some 2 \<and> nb_added cr = 2 \<and>
     name_fits cr 2 \<and> name_fits cr 4 \<and>
     cells demo_cut_world 2 \<noteq> None"
  by (simp_all add: demo_cut_world_def demo_world_def name_fits_def dec_int_def dec_nat.simps)

text \<open>
  C1, amended: on a linked pair A, B, the deselect handler run on A clears A's selected flag
  and leaves B's as it was. Every other handler keeps the two flags in step: a press of the
  primary button in select mode on A leaves both flags equal, the opposite of what A's was;
  a split of A in cut mode, when it succeeds, leaves A's and B's flags as they were and
  both new halves, linked to each other, unselected; delete on a selected A destroys both
  A and B and on an unselected A changes nothing; dissociate on a selected A clears B's
  flag and ends the pairing (both links are cleared), and on an unselected A changes nothing.
\<close>

theorem selected_flags_of_a_pair:
  assumes "medias s a = Some A" and "linked A = Some b" and "medias s b = Some B" and "a \<noteq> b"
  shows "sel_after (pitivi_timelinemedia_callb_deselect a s) a = Some False \<and>
     sel_after (pitivi_timelinemedia_callb_deselect a s) b = Some (selected B) \<and>
     (cursor s = PITIVI_CURSOR_SELECT \<and> set reach \<subseteq> dom (medias s) \<longrightarrow>
        sel_after (map_sum id snd (pitivi_timelinemedia_button_press_event reach a 1 s)) a
          = Some (\<not> selected A) \<and>
        sel_after (map_sum id snd (pitivi_timelinemedia_button_press_event reach a 1 s)) b
          = Some (\<not> selected A)) \<and>
     (cursor s = PITIVI_CURSOR_CUT \<and> clip_ok a s \<and> clip_ok b s \<and>
      parent A = Some c \<and> cells s c = Some cr \<and>
      name_fits cr (nb_added cr) \<and> name_fits cr (nb_added cr + 2) \<and>
      (case linked_track cr of None \<Rightarrow> True | Some lt \<Rightarrow> cells s lt \<noteq> None) \<and>
      cut_pos (allocation_x A) x = Inr pos \<and> cut_width (allocation_width A) x = Inr width \<and>
      cut_own_width x = Inr own \<longrightarrow>
        sel_after (map_sum id snd (pitivi_timelinemedia_button_release_event cmt FIXED_HEIGHT a x s)) a
          = Some (selected A) \<and>
        sel_after (map_sum id snd (pitivi_timelinemedia_button_release_event cmt FIXED_HEIGHT a x s)) b
          = Some (selected B) \<and>
        sel_after (map_sum id snd (pitivi_timelinemedia_button_release_event cmt FIXED_HEIGHT a x s)) (brk s)
          = Some False \<and>
        (\<exists>m1. m1 \<noteq> a \<and> m1 \<noteq> b \<and> m1 \<noteq> brk s \<and>
           linked_after (map_sum id snd (pitivi_timelinemedia_button_release_event cmt FIXED_HEIGHT a x s)) (brk s)
             = Some (Some m1) \<and>
           sel_after (map_sum id snd (pitivi_timelinemedia_button_release_event cmt FIXED_HEIGHT a x s)) m1
             = Some False)) \<and>
     (if selected A
      then \<exists>s'. pitivi_timelinemedia_callb_destroy a s = Inr s' \<and> medias s' a = None \<and> medias s' b = None
      else pitivi_timelinemedia_callb_destroy a s = Inr s) \<and>
     (if selected A
      then sel_after (pitivi_timelinemedia_callb_dissociate a s) a = Some True \<and>
           sel_after (pitivi_timelinemedia_callb_dissociate a s) b = Some False \<and>
           linked_after (pitivi_timelinemedia_callb_dissociate a s) a = Some None \<and>
           linked_after (pitivi_timelinemedia_callb_dissociate a s) b = Some None
      else pitivi_timelinemedia_callb_dissociate a s = Inr s)"
proof -
  have d: "sel_after (pitivi_timelinemedia_callb_deselect a s) a = Some False \<and>
     sel_after (pitivi_timelinemedia_callb_deselect a s) b = Some (selected B)"
    using assms
    by (simp add: sel_after_def pitivi_timelinemedia_callb_deselect_def update_media_def
        pitivi_send_expose_event_def)
  have p: "sel_after (map_sum id snd (pitivi_timelinemedia_button_press_event reach a 1 s)) a = Some (\<not> selected A) \<and>
     sel_after (map_sum id snd (pitivi_timelinemedia_button_press_event reach a 1 s)) b = Some (\<not> selected A)"
    if sel: "cursor s = PITIVI_CURSOR_SELECT" and reach: "set reach \<subseteq> dom (medias s)"
  proof (cases "selected A")
    case True
    then show ?thesis using assms sel
      by (simp add: sel_after_def pitivi_timelinemedia_button_press_event_def update_media_def
        media_linked_def pitivi_send_expose_event_def gtk_widget_grab_focus_def)
  next
    case False
    have dom1: "set reach \<subseteq> dom (medias (s\<lparr>trace := trace s @ [Emit_deselect]\<rparr>))"
      using reach by simp
    from deselect_all_result [OF dom1] obtain s1 where s1: "emit_deselect reach s = Inr s1"
      "medias s1 = (\<lambda>w. map_option (\<lambda>m. if w \<in> set reach then m\<lparr>selected := False\<rparr> else m) (medias s w))"
      by (auto simp add: emit_deselect_def)
    show ?thesis using False assms sel s1
      by (simp add: sel_after_def pitivi_timelinemedia_button_press_event_def update_media_def
        media_linked_def pitivi_send_expose_event_def gtk_widget_grab_focus_def)
  qed
  have c: "sel_after (map_sum id snd (pitivi_timelinemedia_button_release_event cmt FIXED_HEIGHT a x s)) a
          = Some (selected A) \<and>
        sel_after (map_sum id snd (pitivi_timelinemedia_button_release_event cmt FIXED_HEIGHT a x s)) b
          = Some (selected B) \<and>
        sel_after (map_sum id snd (pitivi_timelinemedia_button_release_event cmt FIXED_HEIGHT a x s)) (brk s)
          = Some False \<and>
        (\<exists>m1. m1 \<noteq> a \<and> m1 \<noteq> b \<and> m1 \<noteq> brk s \<and>
           linked_after (map_sum id snd (pitivi_timelinemedia_button_release_event cmt FIXED_HEIGHT a x s)) (brk s)
             = Some (Some m1) \<and>
           sel_after (map_sum id snd (pitivi_timelinemedia_button_release_event cmt FIXED_HEIGHT a x s)) m1
             = Some False)"
    if cut: "cursor s = PITIVI_CURSOR_CUT" and oka: "clip_ok a s" and okb: "clip_ok b s"
      and par: "parent A = Some c" and cr: "cells s c = Some cr"
      and fits: "name_fits cr (nb_added cr)" "name_fits cr (nb_added cr + 2)"
      and ltr: "case linked_track cr of None \<Rightarrow> True | Some lt \<Rightarrow> cells s lt \<noteq> None"
      and conv: "cut_pos (allocation_x A) x = Inr pos" "cut_width (allocation_width A) x = Inr width"
        "cut_own_width x = Inr own"
  proof -
    from clip_okD [OF oka assms(1)] obtain sa q where sa: "sourceitem A = Some sa" and q: "srcfile sa = Some q"
      by blast
    have lnk: "case linked A of None \<Rightarrow> True
       | Some b \<Rightarrow> b \<noteq> a \<and> clip_ok b s \<and> name_fits cr (nb_added cr + 2) \<and>
           (case linked_track cr of None \<Rightarrow> True | Some lt \<Rightarrow> cells s lt \<noteq> None)"
      using assms(2,4) okb fits(2) ltr by simp
    from split_result [OF cut assms(1) oka par cr fits(1) sa q conv lnk, of cmt FIXED_HEIGHT] assms(2,3)
    obtain si0 s' m1 pb si1 ty where r:
      "pitivi_timelinemedia_button_release_event cmt FIXED_HEIGHT a x s = Inr (True, s')"
      "medias s' a = Some (A\<lparr>request_width := own, request_height := FIXED_HEIGHT\<rparr>)"
      "brk s < m1" "m1 \<noteq> a" "m1 \<noteq> b"
      "medias s' (brk s) = Some ((constructed_media q c (cmt q s) si0)\<lparr>parent := Some c,
             request_width := width, request_height := FIXED_HEIGHT, linked := Some m1\<rparr>)"
      "medias s' m1 = Some ((constructed_media pb c ty si1)\<lparr>parent := linked_track cr,
             request_width := width, request_height := FIXED_HEIGHT, linked := Some (brk s)\<rparr>)"
      "medias s' b = Some (B\<lparr>request_width := own, request_height := FIXED_HEIGHT\<rparr>)"
      by auto
    have m1: "m1 \<noteq> brk s" using r(3) by simp
    show ?thesis
      using r m1
      by (intro conjI exI [of _ m1])
        (simp_all add: sel_after_def linked_after_def constructed_media_def)
  qed
  have k: "if selected A
      then \<exists>s'. pitivi_timelinemedia_callb_destroy a s = Inr s' \<and> medias s' a = None \<and> medias s' b = None
      else pitivi_timelinemedia_callb_destroy a s = Inr s"
    using assms
    by (simp add: pitivi_timelinemedia_callb_destroy_def gtk_widget_destroy_def)
  have i: "if selected A
      then sel_after (pitivi_timelinemedia_callb_dissociate a s) a = Some True \<and>
           sel_after (pitivi_timelinemedia_callb_dissociate a s) b = Some False \<and>
           linked_after (pitivi_timelinemedia_callb_dissociate a s) a = Some None \<and>
           linked_after (pitivi_timelinemedia_callb_dissociate a s) b = Some None
      else pitivi_timelinemedia_callb_dissociate a s = Inr s"
    using assms
    by (simp add: pitivi_timelinemedia_callb_dissociate_def update_media_def
        pitivi_send_expose_event_def sel_after_def linked_after_def)
  from d p c k i show ?thesis by blast
qed

text \<open>
  The amended C1 on clips 3 and 4, both selected: deselect on 3 leaves 4 selected, a press
  on 3 unselects both, a split of 3 at offset 10 leaves both selected and the new half 100
  unselected, delete on 3 destroys both, dissociate on 3 unselects 4 and unlinks 3.
\<close>

theorem selected_flags_of_a_pair_witness:
  "sel_after (pitivi_timelinemedia_callb_deselect 3 demo_world) 3 = Some False \<and>
   sel_after (pitivi_timelinemedia_callb_deselect 3 demo_world) 4 = Some True \<and>
   sel_after (map_sum id snd (pitivi_timelinemedia_button_press_event [3, 4] 3 1 demo_world)) 3 = Some False \<and>
   sel_after (map_sum id snd (pitivi_timelinemedia_button_press_event [3, 4] 3 1 demo_world)) 4 = Some False \<and>
   sel_after (map_sum id snd (pitivi_timelinemedia_button_release_event always_video 50 3 10 demo_cut_world)) 3
     = Some True \<and>
   sel_after (map_sum id snd (pitivi_timelinemedia_button_release_event always_video 50 3 10 demo_cut_world)) 4
     = Some True \<and>
   sel_after (map_sum id snd (pitivi_timelinemedia_button_release_event always_video 50 3 10 demo_cut_world)) 100
     = Some False \<and>
   (\<exists>s'. pitivi_timelinemedia_callb_destroy 3 demo_world = Inr s' \<and> medias s' 3 = None \<and> medias s' 4 = None) \<and>
   sel_after (pitivi_timelinemedia_callb_dissociate 3 demo_world) 4 = Some False \<and>
   linked_after (pitivi_timelinemedia_callb_dissociate 3 demo_world) 3 = Some None"
proof -
  from demo_pair_facts(6) obtain A B cr where f:
    "medias demo_world 3 = Some A" "medias demo_world 4 = Some B"
    "cells demo_cut_world 1 = Some cr"
    "parent A = Some 1" "linked A = Some 4" "selected A" "selected B"
    "allocation_x A = 50" "allocation_width A = 100"
    "linked_track cr = Some 2" "nb_added cr = 2"
    "name_fits cr 2" "name_fits cr 4"
    "cells demo_cut_world 2 \<noteq> None"
    by blast
  have ne: "(3::nat) \<noteq> 4" by simp
  have g: "medias demo_cut_world 3 = Some A" "medias demo_cut_world 4 = Some B"
    using f(1,2) by (simp_all add: demo_pair_facts(5))
  have conv: "cut_pos (allocation_x A) 10 = Inr 62" "cut_width (allocation_width A) 10 = Inr 88"
    "cut_own_width 10 = Inr 12"
    using f demo_cut_whole by simp_all
  have pre: "cursor demo_cut_world = PITIVI_CURSOR_CUT \<and> clip_ok 3 demo_cut_world \<and> clip_ok 4 demo_cut_world \<and>
      parent A = Some 1 \<and> cells demo_cut_world 1 = Some cr \<and>
      name_fits cr (nb_added cr) \<and> name_fits cr (nb_added cr + 2) \<and>
      (case linked_track cr of None \<Rightarrow> True | Some lt \<Rightarrow> cells demo_cut_world lt \<noteq> None) \<and>
      cut_pos (allocation_x A) 10 = Inr 62 \<and> cut_width (allocation_width A) 10 = Inr 88 \<and>
      cut_own_width 10 = Inr 12"
    using f conv demo_ok(1,2) demo_pair_facts(2) by simp
  have sel: "cursor demo_world = PITIVI_CURSOR_SELECT \<and> set [3, 4] \<subseteq> dom (medias demo_world)"
    using demo_pair_facts(1,4) by simp
  note t1 = selected_flags_of_a_pair [OF f(1) f(5) f(2) ne, where reach = "[3, 4]"]
  note t2 = selected_flags_of_a_pair [OF g(1) f(5) g(2) ne, where c = 1 and cr = cr and x = 10
      and pos = 62 and width = 88 and own = 12 and cmt = always_video and FIXED_HEIGHT = 50]
  from t1 sel f(6,7) have a:
    "sel_after (pitivi_timelinemedia_callb_deselect 3 demo_world) 3 = Some False"
    "sel_after (pitivi_timelinemedia_callb_deselect 3 demo_world) 4 = Some True"
    "sel_after (map_sum id snd (pitivi_timelinemedia_button_press_event [3, 4] 3 1 demo_world)) 3 = Some False"
    "sel_after (map_sum id snd (pitivi_timelinemedia_button_press_event [3, 4] 3 1 demo_world)) 4 = Some False"
    "\<exists>s'. pitivi_timelinemedia_callb_destroy 3 demo_world = Inr s' \<and> medias s' 3 = None \<and> medias s' 4 = None"
    "sel_after (pitivi_timelinemedia_callb_dissociate 3 demo_world) 4 = Some False"
    "linked_after (pitivi_timelinemedia_callb_dissociate 3 demo_world) 3 = Some None"
    by simp_all
  from t2 pre f(6,7) have b:
    "sel_after (map_sum id snd (pitivi_timelinemedia_button_release_event always_video 50 3 10 demo_cut_world)) 3
     = Some True"
    "sel_after (map_sum id snd (pitivi_timelinemedia_button_release_event always_video 50 3 10 demo_cut_world)) 4
     = Some True"
    "sel_after (map_sum id snd (pitivi_timelinemedia_button_release_event always_video 50 3 10 demo_cut_world)) 100
     = Some False"
    by (simp_all add: demo_pair_facts(3))
  from a b show ?thesis by simp
qed

end
